theory Spec2Isabelle
  imports Main "HOL-Library.Word"
begin

section \<open>Python values, exceptions and device memory\<close>

text \<open>
  The buffers of \<^verbatim>\<open>cudf/core/buffer\<close> are Python objects whose methods mutate the object,
  raise exceptions and talk to two collaborators: the device allocator (the external
  library \<^verbatim>\<open>rmm\<close>) and the spill manager. A method is modelled as a function from the
  state before the call to the pair of its outcome and the state after the call; a raised
  exception is the outcome \<open>Raised e\<close>, and the state that comes with it is the state the
  exception leaves behind, mutations made before the \<^verbatim>\<open>raise\<close> included.

  The re-entrant lock \<^verbatim>\<open>self.lock\<close> only serialises threads; the model is the sequential
  behaviour of one call at a time.
\<close>

type_synonym byte = "8 word"

datatype error =
    ValueError string
  | MemoryError
  | KeyError string
  | AssertionError
  | IndexError string

datatype 'a outcome = Raised error | Returned 'a

text \<open>
  Device memory is byte addressed. \<^verbatim>\<open>rmm._lib.device_buffer.copy_ptr_to_host(ptr, host)\<close>
  fills the host buffer with \<^verbatim>\<open>len(host)\<close> bytes read from address \<^verbatim>\<open>ptr\<close> on.
\<close>

type_synonym device_memory = "int \<Rightarrow> byte"

definition copy_ptr_to_host :: "device_memory \<Rightarrow> int \<Rightarrow> nat \<Rightarrow> byte list" where
  "copy_ptr_to_host dev p n = map (\<lambda>k. dev (p + int k)) [0..<n]"

definition store_bytes :: "device_memory \<Rightarrow> int \<Rightarrow> byte list \<Rightarrow> device_memory" where
  "store_bytes dev p bs =
     (\<lambda>a. if p \<le> a \<and> a < p + int (length bs) then bs ! nat (a - p) else dev a)"

text \<open>
  Python's \<^verbatim>\<open>xs[a:b]\<close>: a negative index counts from the end, and an index outside the
  sequence is clamped to it.
\<close>

definition py_index :: "nat \<Rightarrow> int \<Rightarrow> int" where
  "py_index n i = (if i < 0 then max 0 (i + int n) else min i (int n))"

definition py_slice :: "'a list \<Rightarrow> int \<Rightarrow> int \<Rightarrow> 'a list" where
  "py_slice xs a b =
     (let lo = py_index (length xs) a; hi = py_index (length xs) b
      in take (nat (hi - lo)) (drop (nat lo) xs))"

section \<open>SpillableBuffer\<close>

text \<open>
  The calls a buffer makes on its manager, in the order they are made. The elapsed time
  passed to \<^verbatim>\<open>log_spill\<close> is a difference of two clock readings and is left out.
\<close>

datatype manager_call =
    Add
  | Spill_to_device_limit
  | Log_spill string string nat
  | Log_expose

text \<open>
  The state a method of one \<^verbatim>\<open>SpillableBuffer\<close> reads and writes: the attributes of the
  object, then the two parts of its environment. \<^verbatim>\<open>_ptr_desc\<close> is a dictionary with the key
  \<^verbatim>\<open>"type"\<close> and, while the data is on the host, the key \<^verbatim>\<open>"memoryview"\<close>; an absent key is
  \<open>None\<close>. \<^verbatim>\<open>_spill_locks\<close> is a \<^verbatim>\<open>WeakSet\<close>: it holds the identities of the lock objects
  that are still alive. \<^verbatim>\<open>_owner\<close> is \<^verbatim>\<open>None\<close> or the device allocation, named by its
  address.
\<close>

record sb_state =
  sb_ptr_desc_type :: string
  sb_ptr_desc_memoryview :: "byte list option"
  sb_ptr :: int
  sb_size :: nat
  sb_owner :: "int option"
  sb_exposed :: bool
  sb_spill_locks :: "nat list"
  sb_last_accessed :: nat
  device :: device_memory
  manager_calls :: "manager_call list"

definition manager_call :: "manager_call \<Rightarrow> sb_state \<Rightarrow> sb_state" where
  "manager_call c s = s\<lparr>manager_calls := manager_calls s @ [c]\<rparr>"

definition is_spilled :: "sb_state \<Rightarrow> bool" where
  "is_spilled s = (sb_ptr_desc_type s \<noteq> ''gpu'')"

definition exposed :: "sb_state \<Rightarrow> bool" where
  "exposed s = sb_exposed s"

definition spillable :: "sb_state \<Rightarrow> bool" where
  "spillable s = (\<not> sb_exposed s \<and> length (sb_spill_locks s) = 0)"

text \<open>
  \<^verbatim>\<open>spill(target)\<close>. The argument \<open>alloc\<close> is the answer of the device allocator should
  \<^verbatim>\<open>rmm.DeviceBuffer.to_device\<close> be called: the address of the new allocation, or \<open>None\<close>
  when the allocation fails, which \<^verbatim>\<open>rmm\<close> reports as \<^verbatim>\<open>MemoryError\<close>. The argument of
  \<^verbatim>\<open>to_device\<close>, \<^verbatim>\<open>self._ptr_desc.pop("memoryview")\<close>, is evaluated before the call is made.
  The early \<^verbatim>\<open>return\<close> leaves the method before \<^verbatim>\<open>log_spill\<close>.
\<close>

definition spill :: "int option \<Rightarrow> string \<Rightarrow> sb_state \<Rightarrow> unit outcome \<times> sb_state" where
  "spill alloc target s =
     (let ptr_type = sb_ptr_desc_type s in
      if ptr_type = target then (Returned (), s)
      else if \<not> spillable s then
        (Raised (ValueError ''Cannot in-place move an unspillable buffer''), s)
      else if ptr_type = ''gpu'' \<and> target = ''cpu'' then
        (let host_mem = copy_ptr_to_host (device s) (sb_ptr s) (sb_size s);
             s1 = s\<lparr>sb_ptr_desc_memoryview := Some host_mem, sb_ptr := 0, sb_owner := None,
                    sb_ptr_desc_type := target\<rparr>
         in (Returned (), manager_call (Log_spill ptr_type target (sb_size s1)) s1))
      else if ptr_type = ''cpu'' \<and> target = ''gpu'' then
        (case sb_ptr_desc_memoryview s of
           None \<Rightarrow> (Raised (KeyError ''memoryview''), s)
         | Some mv \<Rightarrow>
             (let s1 = s\<lparr>sb_ptr_desc_memoryview := None\<rparr> in
              case alloc of
                None \<Rightarrow> (Raised MemoryError, s1)
              | Some p \<Rightarrow>
                  (let s2 = s1\<lparr>device := store_bytes (device s1) p mv, sb_ptr := p,
                              sb_owner := Some p\<rparr>
                   in if sb_size s2 \<noteq> length mv then (Raised AssertionError, s2)
                      else (let s3 = s2\<lparr>sb_ptr_desc_type := target\<rparr>
                            in (Returned (),
                                manager_call (Log_spill ptr_type target (sb_size s3)) s3)))))
      else (Raised (ValueError (''Unknown target: '' @ target)), s))"

text \<open>
  Modelled from the spec: \<^verbatim>\<open>SpillManager.spill_to_device_limit\<close>, whose module
  \<^verbatim>\<open>spill_manager.py\<close> is not among the sources. The spec lets it select victims among the
  registered buffers whose \<^verbatim>\<open>spillable\<close> is true and call \<^verbatim>\<open>spill\<close> to the host on each. Seen
  from one buffer, the manager either leaves it alone or, when it is spillable, spills it
  to the host; \<open>victim\<close> is the manager's choice.
\<close>

definition spill_to_device_limit :: "bool \<Rightarrow> sb_state \<Rightarrow> sb_state" where
  "spill_to_device_limit victim s =
     (let s1 = manager_call Spill_to_device_limit s
      in if victim \<and> spillable s1 then snd (spill None ''cpu'' s1) else s1)"

text \<open>
  The property \<^verbatim>\<open>ptr\<close>; \<open>now\<close> is the reading of \<^verbatim>\<open>time.monotonic()\<close>.
\<close>

definition ptr :: "bool \<Rightarrow> int option \<Rightarrow> nat \<Rightarrow> sb_state \<Rightarrow> int outcome \<times> sb_state" where
  "ptr victim alloc now s0 =
     (let s = spill_to_device_limit victim s0;
          s1 = (if \<not> sb_exposed s then manager_call Log_expose s else s)
      in case spill alloc ''gpu'' s1 of
           (Raised e, s2) \<Rightarrow> (Raised e, s2)
         | (Returned _, s2) \<Rightarrow>
             (let s3 = s2\<lparr>sb_exposed := True, sb_last_accessed := now\<rparr>
              in (Returned (sb_ptr s3), s3)))"

text \<open>
  Spill locks are held in a \<^verbatim>\<open>WeakSet\<close>, which does not keep its members alive: a lock
  object that nothing else refers to any more is dropped from every \<^verbatim>\<open>WeakSet\<close> holding it.
  A lock object is named by its identity.
\<close>

definition lock_unreachable :: "nat \<Rightarrow> sb_state \<Rightarrow> sb_state" where
  "lock_unreachable l s = s\<lparr>sb_spill_locks := removeAll l (sb_spill_locks s)\<rparr>"

text \<open>
  \<^verbatim>\<open>spill_lock(spill_lock)\<close>. \<^verbatim>\<open>WeakSet.add\<close> of a member changes nothing. When the argument
  is \<^verbatim>\<open>None\<close> the method creates a \<^verbatim>\<open>SpillLock()\<close> of its own, whose identity is \<open>fresh\<close>; the
  method returns \<^verbatim>\<open>None\<close>, so that object is referenced by the local variable alone and is
  unreachable as soon as the method has returned. A lock that the caller passed lives as
  long as the caller keeps it.
\<close>

definition spill_lock :: "nat option \<Rightarrow> nat \<Rightarrow> int option \<Rightarrow> sb_state \<Rightarrow> unit outcome \<times> sb_state" where
  "spill_lock lock_arg fresh alloc s =
     (let l = (case lock_arg of None \<Rightarrow> fresh | Some l \<Rightarrow> l)
      in case spill alloc ''gpu'' s of
           (Raised e, s1) \<Rightarrow> (Raised e, s1)
         | (Returned _, s1) \<Rightarrow>
             (let s2 = s1\<lparr>sb_spill_locks := List.insert l (sb_spill_locks s1)\<rparr>
              in (Returned (), case lock_arg of None \<Rightarrow> lock_unreachable l s2 | Some _ \<Rightarrow> s2)))"

definition get_ptr :: "nat option \<Rightarrow> bool \<Rightarrow> int option \<Rightarrow> nat \<Rightarrow> sb_state \<Rightarrow> int outcome \<times> sb_state" where
  "get_ptr lock_arg victim alloc now s =
     (case lock_arg of
        None \<Rightarrow> ptr victim alloc now s
      | Some l \<Rightarrow>
          (case spill_lock (Some l) l alloc s of
             (Raised e, s1) \<Rightarrow> (Raised e, s1)
           | (Returned _, s1) \<Rightarrow>
               (let s2 = s1\<lparr>sb_last_accessed := now\<rparr> in (Returned (sb_ptr s2), s2))))"

text \<open>
  \<^verbatim>\<open>mutable_ptr\<close> is \<^verbatim>\<open>self.get_ptr(spill_lock=SpillLock())\<close>: the lock is a temporary, whose
  identity is \<open>new_lock\<close>; with a lock given, \<^verbatim>\<open>get_ptr\<close> does not call the manager. The
  property binds the temporary to no name, so when \<^verbatim>\<open>get_ptr\<close> has returned (or raised)
  only the \<^verbatim>\<open>WeakSet\<close> refers to it, and the lock is gone from the set by the time the
  caller has the pointer. A new object has the identity of no live object, so \<open>new_lock\<close>
  is not among the locks the set held before the call.
\<close>

definition mutable_ptr :: "nat \<Rightarrow> int option \<Rightarrow> nat \<Rightarrow> sb_state \<Rightarrow> int outcome \<times> sb_state" where
  "mutable_ptr new_lock alloc now s =
     (case get_ptr (Some new_lock) False alloc now s of
        (r, s1) \<Rightarrow> (r, lock_unreachable new_lock s1))"

text \<open>
  \<^verbatim>\<open>memoryview(offset, size)\<close>. The result is either a slice of the buffer's own host
  \<^verbatim>\<open>memoryview\<close>, which shares its memory, or a new \<^verbatim>\<open>bytearray\<close> filled from the device.
  \<^verbatim>\<open>bytearray(size)\<close> raises \<^verbatim>\<open>ValueError\<close> for a negative size. A spill to the host never
  allocates device memory.
\<close>

datatype host_memory = View_of_host "byte list" | Fresh_copy "byte list"

definition memoryview :: "int \<Rightarrow> int option \<Rightarrow> sb_state \<Rightarrow> host_memory outcome \<times> sb_state" where
  "memoryview offset size_arg s =
     (let sz = (case size_arg of None \<Rightarrow> int (sb_size s) | Some n \<Rightarrow> n)
      in if spillable s then
           (case spill None ''cpu'' s of
              (Raised e, s1) \<Rightarrow> (Raised e, s1)
            | (Returned _, s1) \<Rightarrow>
                (case sb_ptr_desc_memoryview s1 of
                   None \<Rightarrow> (Raised (KeyError ''memoryview''), s1)
                 | Some mv \<Rightarrow>
                     (Returned (View_of_host (py_slice mv offset (offset + sz))), s1)))
         else if sb_ptr_desc_type s \<noteq> ''gpu'' then (Raised AssertionError, s)
         else if sz < 0 then (Raised (ValueError ''negative count''), s)
         else (Returned (Fresh_copy
                 (copy_ptr_to_host (device s) (sb_ptr s + offset) (nat sz))), s))"

text \<open>
  \<^verbatim>\<open>__cuda_array_interface__\<close> and the \<^verbatim>\<open>DelayedPointerTuple\<close> in its \<^verbatim>\<open>"data"\<close> field. The
  tuple keeps a reference to the buffer; its \<^verbatim>\<open>__getitem__\<close> reads \<^verbatim>\<open>ptr\<close> for index 0.
\<close>

datatype data_field = Plain_tuple int bool | DelayedPointerTuple

record cuda_array_interface =
  cai_data :: data_field
  cai_shape :: "nat list"
  cai_strides :: "unit option"
  cai_typestr :: string
  cai_version :: nat

definition cuda_array_interface :: "sb_state \<Rightarrow> cuda_array_interface outcome \<times> sb_state" where
  "cuda_array_interface s =
     (Returned \<lparr>cai_data = DelayedPointerTuple, cai_shape = [sb_size s], cai_strides = None,
                cai_typestr = ''|u1'', cai_version = 0\<rparr>, s)"

datatype tuple_item = Item_int int | Item_bool bool

definition delayed_len :: "sb_state \<Rightarrow> nat outcome \<times> sb_state" where
  "delayed_len s = (Returned 2, s)"

definition delayed_getitem :: "int \<Rightarrow> bool \<Rightarrow> int option \<Rightarrow> nat \<Rightarrow> sb_state \<Rightarrow> tuple_item outcome \<times> sb_state" where
  "delayed_getitem i victim alloc now s =
     (if i = 0 then
        (case ptr victim alloc now s of
           (Raised e, s1) \<Rightarrow> (Raised e, s1)
         | (Returned p, s1) \<Rightarrow> (Returned (Item_int p), s1))
      else if i = 1 then (Returned (Item_bool False), s)
      else (Raised (IndexError ''tuple index out of range''), s))"

text \<open>
  \<^verbatim>\<open>serialize\<close>. The header's pickled class is left out; a frame is the host
  \<^verbatim>\<open>memoryview\<close>, or a plain \<^verbatim>\<open>Buffer\<close> over the device address whose owner is the pair of
  the buffer's owner and a new spill lock.
\<close>

datatype frame = Frame_host host_memory | Frame_device int nat "int option" nat

definition serialize :: "nat \<Rightarrow> int option \<Rightarrow> nat \<Rightarrow> sb_state \<Rightarrow> (nat \<times> frame list) outcome \<times> sb_state" where
  "serialize new_lock alloc now s =
     (if is_spilled s then
        (case memoryview 0 None s of
           (Raised e, s1) \<Rightarrow> (Raised e, s1)
         | (Returned mv, s1) \<Rightarrow> (Returned (1, [Frame_host mv]), s1))
      else
        (case get_ptr (Some new_lock) False alloc now s of
           (Raised e, s1) \<Rightarrow> (Raised e, s1)
         | (Returned p, s1) \<Rightarrow>
             (Returned (1, [Frame_device p (sb_size s1) (sb_owner s1) new_lock]), s1)))"

text \<open>
  The two constructors. \<open>manager\<close> tells whether a global spill manager exists; a new
  buffer registers itself with it.
\<close>

definition finalize_init :: "string \<Rightarrow> byte list option \<Rightarrow> bool \<Rightarrow> bool \<Rightarrow> nat \<Rightarrow> sb_state \<Rightarrow> sb_state outcome" where
  "finalize_init ty mv exposed_arg manager now s =
     (let s1 = s\<lparr>sb_spill_locks := [], sb_last_accessed := now, sb_ptr_desc_type := ty,
                 sb_ptr_desc_memoryview := mv, sb_exposed := exposed_arg\<rparr>
      in if \<not> manager then
           Raised (ValueError ''cannot create SpillableBuffer without a global spill manager'')
         else Returned (manager_call Add s1))"

definition blank :: "device_memory \<Rightarrow> manager_call list \<Rightarrow> sb_state" where
  "blank dev calls =
     \<lparr>sb_ptr_desc_type = [], sb_ptr_desc_memoryview = None, sb_ptr = 0, sb_size = 0,
      sb_owner = None, sb_exposed = False, sb_spill_locks = [], sb_last_accessed = 0,
      device = dev, manager_calls = calls\<rparr>"

definition from_device_memory :: "int \<Rightarrow> nat \<Rightarrow> bool \<Rightarrow> bool \<Rightarrow> nat \<Rightarrow> device_memory \<Rightarrow> manager_call list \<Rightarrow> sb_state outcome" where
  "from_device_memory data_ptr data_size exposed_arg manager now dev calls =
     finalize_init ''gpu'' None exposed_arg manager now
       ((blank dev calls)\<lparr>sb_ptr := data_ptr, sb_size := data_size, sb_owner := Some data_ptr\<rparr>)"

definition from_host_memory :: "byte list \<Rightarrow> bool \<Rightarrow> bool \<Rightarrow> nat \<Rightarrow> device_memory \<Rightarrow> manager_call list \<Rightarrow> sb_state outcome" where
  "from_host_memory data c_contiguous manager now dev calls =
     (if \<not> c_contiguous then Raised (ValueError ''Buffer data must be C-contiguous'')
      else finalize_init ''cpu'' (Some data) False manager now
             ((blank dev calls)\<lparr>sb_owner := None, sb_ptr := 0, sb_size := length data\<rparr>))"

section \<open>SpillableBufferSlice\<close>

text \<open>
  A slice object has the attributes \<^verbatim>\<open>_base\<close>, \<^verbatim>\<open>_offset\<close>, \<^verbatim>\<open>_size\<close>, \<^verbatim>\<open>_owner\<close> and \<^verbatim>\<open>lock\<close>;
  \<^verbatim>\<open>_base\<close> and \<^verbatim>\<open>_owner\<close> are references to the base buffer and \<^verbatim>\<open>lock\<close> is the base's lock.
  Its constructor does not call \<^verbatim>\<open>_finalize_init\<close>, so the object has no \<^verbatim>\<open>_ptr_desc\<close>,
  \<^verbatim>\<open>_exposed\<close>, \<^verbatim>\<open>_spill_locks\<close> or \<^verbatim>\<open>_last_accessed\<close>. In the model the base is the state the
  slice's methods run on, and the slice itself is its offset and size.
\<close>

record slice =
  sl_offset :: int
  sl_size :: int

definition slice_init :: "sb_state \<Rightarrow> int \<Rightarrow> int \<Rightarrow> slice outcome" where
  "slice_init base offset sz =
     (if sz < 0 then Raised (ValueError ''size cannot be negative'')
      else if offset < 0 then Raised (ValueError ''offset cannot be negative'')
      else if offset + sz > int (sb_size base) then
        Raised (ValueError ''offset+size cannot be greater than the size of base'')
      else Returned \<lparr>sl_offset = offset, sl_size = sz\<rparr>)"

definition getitem :: "int \<Rightarrow> int \<Rightarrow> sb_state \<Rightarrow> slice outcome" where
  "getitem offset sz s = slice_init s offset sz"

definition slice_getitem :: "slice \<Rightarrow> int \<Rightarrow> int \<Rightarrow> sb_state \<Rightarrow> slice outcome" where
  "slice_getitem sl offset sz base = slice_init base (offset + sl_offset sl) sz"

definition slice_ptr :: "slice \<Rightarrow> bool \<Rightarrow> int option \<Rightarrow> nat \<Rightarrow> sb_state \<Rightarrow> int outcome \<times> sb_state" where
  "slice_ptr sl victim alloc now base =
     (case ptr victim alloc now base of
        (Raised e, s1) \<Rightarrow> (Raised e, s1)
      | (Returned p, s1) \<Rightarrow> (Returned (p + sl_offset sl), s1))"

definition slice_get_ptr :: "slice \<Rightarrow> nat option \<Rightarrow> bool \<Rightarrow> int option \<Rightarrow> nat \<Rightarrow> sb_state \<Rightarrow> int outcome \<times> sb_state" where
  "slice_get_ptr sl lock_arg victim alloc now base =
     (case get_ptr lock_arg victim alloc now base of
        (Raised e, s1) \<Rightarrow> (Raised e, s1)
      | (Returned p, s1) \<Rightarrow> (Returned (p + sl_offset sl), s1))"

definition slice_memoryview :: "slice \<Rightarrow> int \<Rightarrow> int option \<Rightarrow> sb_state \<Rightarrow> host_memory outcome \<times> sb_state" where
  "slice_memoryview sl offset size_arg base =
     (let sz = (case size_arg of None \<Rightarrow> sl_size sl | Some n \<Rightarrow> n)
      in memoryview (sl_offset sl + offset) (Some sz) base)"

definition slice_spill :: "slice \<Rightarrow> int option \<Rightarrow> string \<Rightarrow> sb_state \<Rightarrow> unit outcome \<times> sb_state" where
  "slice_spill sl alloc target base = spill alloc target base"

definition slice_is_spilled :: "slice \<Rightarrow> sb_state \<Rightarrow> bool" where
  "slice_is_spilled sl base = is_spilled base"

definition slice_exposed :: "slice \<Rightarrow> sb_state \<Rightarrow> bool" where
  "slice_exposed sl base = exposed base"

definition slice_spillable :: "slice \<Rightarrow> sb_state \<Rightarrow> bool" where
  "slice_spillable sl base = spillable base"

definition slice_spill_lock :: "slice \<Rightarrow> nat option \<Rightarrow> nat \<Rightarrow> int option \<Rightarrow> sb_state \<Rightarrow> unit outcome \<times> sb_state" where
  "slice_spill_lock sl lock_arg fresh alloc base = spill_lock lock_arg fresh alloc base"

text \<open>
  \<^verbatim>\<open>mutable_ptr\<close> is inherited: on a slice, \<^verbatim>\<open>self.get_ptr\<close> is the slice's \<^verbatim>\<open>get_ptr\<close>, and
  the temporary lock is gone from the base's set when the property has returned.
\<close>

definition slice_mutable_ptr :: "slice \<Rightarrow> nat \<Rightarrow> int option \<Rightarrow> nat \<Rightarrow> sb_state \<Rightarrow> int outcome \<times> sb_state" where
  "slice_mutable_ptr sl new_lock alloc now base =
     (case slice_get_ptr sl (Some new_lock) False alloc now base of
        (r, s1) \<Rightarrow> (r, lock_unreachable new_lock s1))"

section \<open>Runs of operations on one buffer\<close>

text \<open>
  Everything that can happen to a buffer between two observations: a call of one of its
  methods (directly or through a slice, which delegates), the manager spilling to its
  limit on behalf of some other buffer, and a spill lock becoming unreachable.
\<close>

datatype sb_op =
    Op_spill "int option" string
  | Op_ptr bool "int option" nat
  | Op_mutable_ptr nat "int option" nat
  | Op_spill_lock "nat option" nat "int option"
  | Op_get_ptr "nat option" bool "int option" nat
  | Op_memoryview int "int option"
  | Op_cuda_array_interface
  | Op_delayed_getitem int bool "int option" nat
  | Op_serialize nat "int option" nat
  | Op_spill_to_device_limit bool
  | Op_lock_unreachable nat

fun exec :: "sb_op \<Rightarrow> sb_state \<Rightarrow> sb_state" where
  "exec (Op_spill alloc target) s = snd (spill alloc target s)"
| "exec (Op_ptr victim alloc now) s = snd (ptr victim alloc now s)"
| "exec (Op_mutable_ptr l alloc now) s = snd (mutable_ptr l alloc now s)"
| "exec (Op_spill_lock lock_arg fresh alloc) s = snd (spill_lock lock_arg fresh alloc s)"
| "exec (Op_get_ptr lock_arg victim alloc now) s = snd (get_ptr lock_arg victim alloc now s)"
| "exec (Op_memoryview offset size_arg) s = snd (memoryview offset size_arg s)"
| "exec Op_cuda_array_interface s = snd (cuda_array_interface s)"
| "exec (Op_delayed_getitem i victim alloc now) s = snd (delayed_getitem i victim alloc now s)"
| "exec (Op_serialize l alloc now) s = snd (serialize l alloc now s)"
| "exec (Op_spill_to_device_limit victim) s = spill_to_device_limit victim s"
| "exec (Op_lock_unreachable l) s = lock_unreachable l s"

fun execs :: "sb_op list \<Rightarrow> sb_state \<Rightarrow> sb_state" where
  "execs [] s = s"
| "execs (op # ops) s = execs ops (exec op s)"

text \<open>
  The bytes a buffer stands for, wherever they are, and the states the constructors and
  methods produce: the type is \<^verbatim>\<open>"gpu"\<close>, or it is \<^verbatim>\<open>"cpu"\<close> with a host \<^verbatim>\<open>memoryview\<close> of
  the buffer's size and the buffer is spillable.
\<close>

definition contents :: "sb_state \<Rightarrow> byte list" where
  "contents s =
     (if sb_ptr_desc_type s = ''gpu'' then copy_ptr_to_host (device s) (sb_ptr s) (sb_size s)
      else (case sb_ptr_desc_memoryview s of None \<Rightarrow> [] | Some mv \<Rightarrow> mv))"

definition well_formed :: "sb_state \<Rightarrow> bool" where
  "well_formed s =
     (if sb_ptr_desc_type s = ''gpu'' then True
      else sb_ptr_desc_type s = ''cpu'' \<and> spillable s \<and>
           (case sb_ptr_desc_memoryview s of None \<Rightarrow> False | Some mv \<Rightarrow> length mv = sb_size s))"

section \<open>CopyOnWriteBuffer\<close>

text \<open>
  Several \<^verbatim>\<open>CopyOnWriteBuffer\<close> objects can point at the same device memory, so the model
  keeps a heap of objects, named by their identities. An object has the attributes
  \<^verbatim>\<open>_ptr\<close>, \<^verbatim>\<open>_size\<close>, \<^verbatim>\<open>_owner\<close> (the device allocation that keeps the memory alive, named by
  its address), \<^verbatim>\<open>_zero_copied\<close>, and the instance attribute \<^verbatim>\<open>_instances\<close>, which refers to
  one of the \<^verbatim>\<open>WeakSet\<close>s of the class dictionary and is modelled by that set's key.
\<close>

record cow_buffer =
  cb_ptr :: int
  cb_size :: nat
  cb_owner :: "int option"
  cb_instances :: int
  cb_zero_copied :: bool

text \<open>
  The world of the copy-on-write buffers: the objects, the identity the next new object
  gets, the class attribute \<^verbatim>\<open>CopyOnWriteBuffer._instances\<close> (a \<^verbatim>\<open>defaultdict(WeakSet)\<close>
  keyed by pointer: a missing key reads as the empty set), and device memory. No object
  is destroyed in the model, so no weak reference dies and \<^verbatim>\<open>_keys_cleanup\<close> never runs.
\<close>

record cow_world =
  buffers :: "nat \<Rightarrow> cow_buffer"
  next_id :: nat
  class_instances :: "int \<Rightarrow> nat list"
  memory :: device_memory

definition update_buffer :: "nat \<Rightarrow> (cow_buffer \<Rightarrow> cow_buffer) \<Rightarrow> cow_world \<Rightarrow> cow_world" where
  "update_buffer i f w = w\<lparr>buffers := (buffers w)(i := f (buffers w i))\<rparr>"

text \<open>
  \<^verbatim>\<open>cls.__new__(cls)\<close> followed by the assignments of \<^verbatim>\<open>_ptr\<close>, \<^verbatim>\<open>_size\<close> and \<^verbatim>\<open>_owner\<close>. The
  two attributes that \<^verbatim>\<open>_finalize_init\<close> sets next do not exist yet; the record holds the
  values \<^verbatim>\<open>_finalize_init\<close> will give them.
\<close>

definition new_object :: "int \<Rightarrow> nat \<Rightarrow> int option \<Rightarrow> cow_world \<Rightarrow> nat \<times> cow_world" where
  "new_object p n ow w =
     (next_id w,
      w\<lparr>buffers := (buffers w)(next_id w :=
            \<lparr>cb_ptr = p, cb_size = n, cb_owner = ow, cb_instances = p, cb_zero_copied = False\<rparr>),
        next_id := Suc (next_id w)\<rparr>)"

definition cow_finalize_init :: "nat \<Rightarrow> cow_world \<Rightarrow> cow_world" where
  "cow_finalize_init self w =
     (let key = cb_ptr (buffers w self);
          w1 = w\<lparr>class_instances :=
                   (class_instances w)(key := List.insert self (class_instances w key))\<rparr>
      in update_buffer self (\<lambda>b. b\<lparr>cb_instances := key, cb_zero_copied := False\<rparr>) w1)"

text \<open>
  Modelled from the spec: \<^verbatim>\<open>Buffer._from_device_memory\<close> of the base class, whose module
  \<^verbatim>\<open>buffer.py\<close> is not among the sources. The spec's \<^verbatim>\<open>wrap_device\<close> copies nothing and wraps
  an existing device allocation: the new object takes the pointer and the size of the data
  and the data as its owner.
\<close>

definition buffer_from_device_memory :: "int \<Rightarrow> nat \<Rightarrow> int option \<Rightarrow> cow_world \<Rightarrow> nat \<times> cow_world" where
  "buffer_from_device_memory data_ptr data_size data_owner w =
     new_object data_ptr data_size data_owner w"

definition cow_from_device_memory :: "int \<Rightarrow> nat \<Rightarrow> int option \<Rightarrow> bool \<Rightarrow> cow_world \<Rightarrow> nat \<times> cow_world" where
  "cow_from_device_memory data_ptr data_size data_owner exposed_arg w =
     (case buffer_from_device_memory data_ptr data_size data_owner w of
        (ret, w1) \<Rightarrow>
          (ret, update_buffer ret (\<lambda>b. b\<lparr>cb_zero_copied := exposed_arg\<rparr>)
                  (cow_finalize_init ret w1)))"

text \<open>
  \<^verbatim>\<open>rmm.DeviceBuffer(ptr=p, size=n)\<close> and \<^verbatim>\<open>DeviceBuffer.copy()\<close> allocate \<open>n\<close> bytes and fill
  them with the \<open>n\<close> bytes at \<open>p\<close>. As for the spillable buffer, the allocator's answer is an
  argument: the address of the new allocation, or \<open>None\<close> for \<^verbatim>\<open>MemoryError\<close>.
\<close>

definition device_copy :: "device_memory \<Rightarrow> int \<Rightarrow> int \<Rightarrow> nat \<Rightarrow> device_memory" where
  "device_copy mem src dst n = store_bytes mem dst (copy_ptr_to_host mem src n)"

text \<open>
  Modelled from the spec: \<^verbatim>\<open>Buffer._from_host_memory\<close> of the base class (in \<^verbatim>\<open>buffer.py\<close>).
  The spec's \<^verbatim>\<open>wrap_host\<close> fails when the data is not contiguous and otherwise copies the
  bytes into a new device allocation.
\<close>

definition cow_from_host_memory :: "byte list \<Rightarrow> bool \<Rightarrow> int option \<Rightarrow> cow_world \<Rightarrow> nat outcome \<times> cow_world" where
  "cow_from_host_memory data c_contiguous alloc w =
     (if \<not> c_contiguous then (Raised (ValueError ''Buffer data must be C-contiguous''), w)
      else case alloc of
             None \<Rightarrow> (Raised MemoryError, w)
           | Some p \<Rightarrow>
               (case new_object p (length data) (Some p)
                       (w\<lparr>memory := store_bytes (memory w) p data\<rparr>) of
                  (ret, w1) \<Rightarrow> (Returned ret, cow_finalize_init ret w1)))"

definition is_shared :: "nat \<Rightarrow> cow_world \<Rightarrow> bool" where
  "is_shared self w = (length (class_instances w (cb_instances (buffers w self))) > 1)"

text \<open>
  \<^verbatim>\<open>_unlink_shared_buffers\<close> makes two allocations: \<^verbatim>\<open>current_buf\<close>, a copy of the buffer's
  memory, and \<^verbatim>\<open>new_buf\<close>, a copy of that copy, which the buffer then points at.
\<close>

definition unlink_shared_buffers :: "int option \<Rightarrow> int option \<Rightarrow> nat \<Rightarrow> cow_world \<Rightarrow> unit outcome \<times> cow_world" where
  "unlink_shared_buffers alloc1 alloc2 self w =
     (let b = buffers w self in
      if \<not> cb_zero_copied b \<and> is_shared self w then
        (case alloc1 of
           None \<Rightarrow> (Raised MemoryError, w)
         | Some p1 \<Rightarrow>
             (let w1 = w\<lparr>memory := device_copy (memory w) (cb_ptr b) p1 (cb_size b)\<rparr> in
              case alloc2 of
                None \<Rightarrow> (Raised MemoryError, w1)
              | Some p2 \<Rightarrow>
                  (let w2 = w1\<lparr>memory := device_copy (memory w1) p1 p2 (cb_size b)\<rparr>;
                       w3 = update_buffer self
                              (\<lambda>c. c\<lparr>cb_ptr := p2, cb_size := cb_size b, cb_owner := Some p2\<rparr>) w2
                   in (Returned (), cow_finalize_init self w3))))
      else (Returned (), w))"

definition cow_ptr :: "int option \<Rightarrow> int option \<Rightarrow> nat \<Rightarrow> cow_world \<Rightarrow> int outcome \<times> cow_world" where
  "cow_ptr alloc1 alloc2 self w =
     (case unlink_shared_buffers alloc1 alloc2 self w of
        (Raised e, w1) \<Rightarrow> (Raised e, w1)
      | (Returned _, w1) \<Rightarrow>
          (let w2 = update_buffer self (\<lambda>b. b\<lparr>cb_zero_copied := True\<rparr>) w1
           in (Returned (cb_ptr (buffers w2 self)), w2)))"

definition cow_mutable_ptr :: "int option \<Rightarrow> int option \<Rightarrow> nat \<Rightarrow> cow_world \<Rightarrow> int outcome \<times> cow_world" where
  "cow_mutable_ptr alloc1 alloc2 self w =
     (case unlink_shared_buffers alloc1 alloc2 self w of
        (Raised e, w1) \<Rightarrow> (Raised e, w1)
      | (Returned _, w1) \<Rightarrow> (Returned (cb_ptr (buffers w1 self)), w1))"

definition cow_getitem :: "int \<Rightarrow> nat \<Rightarrow> nat \<Rightarrow> cow_world \<Rightarrow> nat \<times> cow_world" where
  "cow_getitem offset sz self w =
     cow_from_device_memory (cb_ptr (buffers w self) + offset) sz (cb_owner (buffers w self))
       False w"

definition cow_copy :: "bool \<Rightarrow> int option \<Rightarrow> nat \<Rightarrow> cow_world \<Rightarrow> nat outcome \<times> cow_world" where
  "cow_copy deep alloc self w =
     (let b = buffers w self in
      if \<not> deep \<and> \<not> cb_zero_copied b then
        (case new_object (cb_ptr b) (cb_size b) (cb_owner b) w of
           (copied_buf, w1) \<Rightarrow> (Returned copied_buf, cow_finalize_init copied_buf w1))
      else
        (case alloc of
           None \<Rightarrow> (Raised MemoryError, w)
         | Some p \<Rightarrow>
             (case cow_from_device_memory p (cb_size b) (Some p) False
                     (w\<lparr>memory := device_copy (memory w) (cb_ptr b) p (cb_size b)\<rparr>) of
                (ret, w1) \<Rightarrow> (Returned ret, w1))))"

definition get_cuda_array_interface :: "bool \<Rightarrow> nat \<Rightarrow> cow_world \<Rightarrow> cuda_array_interface" where
  "get_cuda_array_interface readonly self w =
     \<lparr>cai_data = Plain_tuple (cb_ptr (buffers w self)) readonly,
      cai_shape = [cb_size (buffers w self)], cai_strides = None, cai_typestr = ''|u1'',
      cai_version = 0\<rparr>"

definition cow_cuda_array_interface :: "int option \<Rightarrow> int option \<Rightarrow> nat \<Rightarrow> cow_world \<Rightarrow> cuda_array_interface outcome \<times> cow_world" where
  "cow_cuda_array_interface alloc1 alloc2 self w =
     (case unlink_shared_buffers alloc1 alloc2 self w of
        (Raised e, w1) \<Rightarrow> (Raised e, w1)
      | (Returned _, w1) \<Rightarrow>
          (let w2 = update_buffer self (\<lambda>b. b\<lparr>cb_zero_copied := True\<rparr>) w1
           in (Returned (get_cuda_array_interface False self w2), w2)))"

definition get_readonly_proxy_obj :: "nat \<Rightarrow> cow_world \<Rightarrow> cuda_array_interface \<times> cow_world" where
  "get_readonly_proxy_obj self w = (get_cuda_array_interface True self w, w)"

text \<open>
  What a reader of a buffer sees, and what code holding a raw pointer \<open>p\<close> can do: write a
  byte at an offset from \<open>p\<close>.
\<close>

definition cow_read :: "nat \<Rightarrow> cow_world \<Rightarrow> byte list" where
  "cow_read self w =
     copy_ptr_to_host (memory w) (cb_ptr (buffers w self)) (cb_size (buffers w self))"

definition write_byte :: "int \<Rightarrow> nat \<Rightarrow> byte \<Rightarrow> cow_world \<Rightarrow> cow_world" where
  "write_byte p k v w = w\<lparr>memory := (memory w)(p + int k := v)\<rparr>"

fun write_through :: "int \<Rightarrow> (nat \<times> byte) list \<Rightarrow> cow_world \<Rightarrow> cow_world" where
  "write_through p [] w = w"
| "write_through p ((k, v) # kvs) w = write_through p kvs (write_byte p k v w)"

text \<open>
  Two regions of device memory that do not overlap, and an allocator's answer that does
  not overlap a buffer's memory, as the answer of an allocator for memory that is in use
  never does.
\<close>

definition regions_disjoint :: "int \<Rightarrow> nat \<Rightarrow> int \<Rightarrow> nat \<Rightarrow> bool" where
  "regions_disjoint p n q m = (p + int n \<le> q \<or> q + int m \<le> p)"

definition fresh_for :: "nat \<Rightarrow> cow_world \<Rightarrow> int option \<Rightarrow> bool" where
  "fresh_for a w alloc =
     (case alloc of
        None \<Rightarrow> True
      | Some q \<Rightarrow> regions_disjoint q (cb_size (buffers w a))
                    (cb_ptr (buffers w a)) (cb_size (buffers w a)))"

text \<open>
  An object that exists and is a member of the set registered under its pointer, as every
  object is once \<^verbatim>\<open>_finalize_init\<close> has run on it.
\<close>

definition registered :: "nat \<Rightarrow> cow_world \<Rightarrow> bool" where
  "registered a w =
     (a < next_id w \<and> cb_instances (buffers w a) = cb_ptr (buffers w a) \<and>
      a \<in> set (class_instances w (cb_ptr (buffers w a))))"

datatype cow_op =
    Cow_copy bool "int option" nat
  | Cow_ptr "int option" "int option" nat
  | Cow_mutable_ptr "int option" "int option" nat
  | Cow_getitem int nat nat
  | Cow_cuda_array_interface "int option" "int option" nat
  | Cow_readonly_proxy nat
  | Cow_from_device_memory int nat "int option" bool
  | Cow_from_host_memory "byte list" bool "int option"
  | Cow_write int nat byte

fun cow_exec :: "cow_op \<Rightarrow> cow_world \<Rightarrow> cow_world" where
  "cow_exec (Cow_copy deep alloc i) w = snd (cow_copy deep alloc i w)"
| "cow_exec (Cow_ptr a1 a2 i) w = snd (cow_ptr a1 a2 i w)"
| "cow_exec (Cow_mutable_ptr a1 a2 i) w = snd (cow_mutable_ptr a1 a2 i w)"
| "cow_exec (Cow_getitem offset sz i) w = snd (cow_getitem offset sz i w)"
| "cow_exec (Cow_cuda_array_interface a1 a2 i) w = snd (cow_cuda_array_interface a1 a2 i w)"
| "cow_exec (Cow_readonly_proxy i) w = snd (get_readonly_proxy_obj i w)"
| "cow_exec (Cow_from_device_memory p n ow e) w = snd (cow_from_device_memory p n ow e w)"
| "cow_exec (Cow_from_host_memory data c alloc) w = snd (cow_from_host_memory data c alloc w)"
| "cow_exec (Cow_write p k v) w = write_byte p k v w"

fun cow_execs :: "cow_op list \<Rightarrow> cow_world \<Rightarrow> cow_world" where
  "cow_execs [] w = w"
| "cow_execs (op # ops) w = cow_execs ops (cow_exec op w)"

text \<open>
  A world with one buffer of three bytes at address 4096, as \<^verbatim>\<open>_from_device_memory\<close>
  leaves it.
\<close>

definition one_buffer_world :: cow_world where
  "one_buffer_world =
     \<lparr>buffers = (\<lambda>_. \<lparr>cb_ptr = 4096, cb_size = 3, cb_owner = Some 4096, cb_instances = 4096,
                      cb_zero_copied = False\<rparr>),
      next_id = 1,
      class_instances = (\<lambda>_. [])(4096 := [0]),
      memory = store_bytes (\<lambda>_. 0) 4096 [1, 2, 3]\<rparr>"

section \<open>Three concrete buffers\<close>

text \<open>
  A buffer on the host holding three bytes, spillable, as \<^verbatim>\<open>_from_host_memory\<close> creates it.
\<close>

definition host_buffer :: sb_state where
  "host_buffer =
     \<lparr>sb_ptr_desc_type = ''cpu'', sb_ptr_desc_memoryview = Some [1, 2, 3], sb_ptr = 0,
      sb_size = 3, sb_owner = None, sb_exposed = False, sb_spill_locks = [],
      sb_last_accessed = 0, device = (\<lambda>_. 0), manager_calls = [Add]\<rparr>"

text \<open>
  A buffer on the device at address 4096 holding three bytes, exposed at creation, as
  \<^verbatim>\<open>_from_device_memory(data, exposed=True)\<close> creates it.
\<close>

definition exposed_device_buffer :: sb_state where
  "exposed_device_buffer =
     \<lparr>sb_ptr_desc_type = ''gpu'', sb_ptr_desc_memoryview = None, sb_ptr = 4096,
      sb_size = 3, sb_owner = Some 4096, sb_exposed = True, sb_spill_locks = [],
      sb_last_accessed = 0, device = store_bytes (\<lambda>_. 0) 4096 [7, 8, 9],
      manager_calls = [Add]\<rparr>"

text \<open>
  A buffer on the device at address 4096 holding three bytes, neither exposed nor locked,
  as \<^verbatim>\<open>_from_device_memory(data)\<close> creates it.
\<close>

definition device_buffer :: sb_state where
  "device_buffer =
     \<lparr>sb_ptr_desc_type = ''gpu'', sb_ptr_desc_memoryview = None, sb_ptr = 4096,
      sb_size = 3, sb_owner = Some 4096, sb_exposed = False, sb_spill_locks = [],
      sb_last_accessed = 0, device = store_bytes (\<lambda>_. 0) 4096 [7, 8, 9],
      manager_calls = [Add]\<rparr>"

section \<open>Failure modes of spill\<close>

text \<open>
  C1. When the device allocation of \<^verbatim>\<open>spill(target="gpu")\<close> fails on a buffer that is on
  the host, \<^verbatim>\<open>MemoryError\<close> reaches the caller, the location is still the host and nothing is
  logged; but the host bytes have already been popped out of \<^verbatim>\<open>_ptr_desc\<close>: the buffer no
  longer holds them, so its state is not the state before the call.
\<close>

theorem spill_gpu_alloc_failure_drops_host_bytes:
  "spill None ''gpu'' host_buffer =
     (Raised MemoryError, host_buffer\<lparr>sb_ptr_desc_memoryview := None\<rparr>)
   \<and> sb_ptr_desc_memoryview host_buffer = Some [1, 2, 3]
   \<and> sb_ptr_desc_memoryview (snd (spill None ''gpu'' host_buffer)) = None
   \<and> sb_ptr_desc_type (snd (spill None ''gpu'' host_buffer)) = ''cpu''
   \<and> manager_calls (snd (spill None ''gpu'' host_buffer)) = manager_calls host_buffer
   \<and> fst (spill None ''gpu'' (snd (spill None ''gpu'' host_buffer)))
       = Raised (KeyError ''memoryview'')"
  by (simp add: spill_def spillable_def host_buffer_def)

text \<open>
  C2. \<^verbatim>\<open>spillable\<close> is false exactly when the buffer is exposed or its set of live spill
  locks is not empty; and \<^verbatim>\<open>spill("cpu")\<close> on a buffer that is on the device and not
  spillable raises the \<^verbatim>\<open>ValueError\<close> of an unspillable buffer (the spec's IllegalState) and
  leaves the whole state, the location included, as it was.
\<close>

theorem unspillable_spill_cpu_fails:
  "(\<not> spillable s \<longleftrightarrow> (exposed s \<or> sb_spill_locks s \<noteq> []))
   \<and> (sb_ptr_desc_type s = ''gpu'' \<and> \<not> spillable s \<longrightarrow>
        spill alloc ''cpu'' s
          = (Raised (ValueError ''Cannot in-place move an unspillable buffer''), s)
        \<and> \<not> is_spilled (snd (spill alloc ''cpu'' s)))"
  by (simp add: spill_def spillable_def exposed_def is_spilled_def)

theorem unspillable_spill_cpu_fails_witness:
  "sb_ptr_desc_type exposed_device_buffer = ''gpu''
   \<and> \<not> spillable exposed_device_buffer
   \<and> spill None ''cpu'' exposed_device_buffer
       = (Raised (ValueError ''Cannot in-place move an unspillable buffer''),
          exposed_device_buffer)"
  using unspillable_spill_cpu_fails [of exposed_device_buffer None]
  by (simp add: exposed_device_buffer_def spillable_def)

text \<open>
  C6, as the spec states it, fails: on a buffer that is not spillable the protection
  check comes first, and \<^verbatim>\<open>spill("disk")\<close> raises the error of an unspillable buffer, not
  the error of an unknown target.
\<close>

theorem spill_unknown_target_counterexample:
  "fst (spill None ''disk'' exposed_device_buffer)
     = Raised (ValueError ''Cannot in-place move an unspillable buffer'')
   \<and> fst (spill None ''disk'' exposed_device_buffer)
     \<noteq> Raised (ValueError (''Unknown target: '' @ ''disk''))"
  by (simp add: spill_def spillable_def exposed_device_buffer_def)

text \<open>
  C6, amended. For a buffer on the host or on the device and a target other than
  \<^verbatim>\<open>"cpu"\<close> and \<^verbatim>\<open>"gpu"\<close>, \<^verbatim>\<open>spill(target)\<close> always raises \<^verbatim>\<open>ValueError\<close> and leaves the state
  unchanged: the error of an unknown target (the spec's InvalidArgument) when the buffer
  is spillable, the error of an unspillable buffer (the spec's IllegalState) when it is
  not.
\<close>

theorem spill_unknown_target:
  assumes "sb_ptr_desc_type s = ''cpu'' \<or> sb_ptr_desc_type s = ''gpu''"
    and "target \<noteq> ''cpu''" and "target \<noteq> ''gpu''"
  shows "spill alloc target s =
           (Raised (ValueError (if spillable s then ''Unknown target: '' @ target
                                else ''Cannot in-place move an unspillable buffer'')), s)"
  using assms by (auto simp add: spill_def)

theorem spill_unknown_target_witness:
  "spill None ''disk'' host_buffer = (Raised (ValueError ''Unknown target: disk''), host_buffer)
   \<and> spillable host_buffer"
  using spill_unknown_target [of host_buffer "''disk''" None]
  by (simp add: host_buffer_def spillable_def)

section \<open>Facts about spill, the manager and ptr\<close>

lemma copy_store_same: "copy_ptr_to_host (store_bytes dev p bs) p (length bs) = bs"
  by (rule nth_equalityI) (simp_all add: copy_ptr_to_host_def store_bytes_def)

lemma copy_ptr_to_host_sub:
  "off + n \<le> m \<Longrightarrow> copy_ptr_to_host dev (p + int off) n = take n (drop off (copy_ptr_to_host dev p m))"
  by (rule nth_equalityI) (simp_all add: copy_ptr_to_host_def add.assoc)

lemma py_slice_in_range:
  "0 \<le> a \<Longrightarrow> 0 \<le> n \<Longrightarrow> a + n \<le> int (length xs) \<Longrightarrow>
     py_slice xs a (a + n) = take (nat n) (drop (nat a) xs)"
  by (simp add: py_slice_def py_index_def Let_def)

lemma spill_exposed: "sb_exposed (snd (spill alloc t s)) = sb_exposed s"
  by (simp add: spill_def Let_def manager_call_def split: option.split)

lemma spill_locks: "sb_spill_locks (snd (spill alloc t s)) = sb_spill_locks s"
  by (simp add: spill_def Let_def manager_call_def split: option.split)

lemma spill_spillable: "spillable (snd (spill alloc t s)) = spillable s"
  by (simp add: spillable_def spill_exposed spill_locks)

lemma spill_unspillable: "\<not> spillable s \<Longrightarrow> snd (spill alloc t s) = s"
  by (simp add: spill_def Let_def)

lemma spill_gpu_returned:
  "spill alloc ''gpu'' s = (Returned u, s') \<Longrightarrow> sb_ptr_desc_type s' = ''gpu''"
  by (auto simp add: spill_def Let_def manager_call_def split: option.splits if_splits)


lemma spill_frame:
  "spill alloc t s = (r, s') \<Longrightarrow>
     sb_exposed s' = sb_exposed s \<and> sb_spill_locks s' = sb_spill_locks s \<and>
     sb_last_accessed s' = sb_last_accessed s \<and> sb_size s' = sb_size s"
  by (auto simp add: spill_def Let_def manager_call_def split: option.splits if_splits)

lemma spill_log:
  "spill alloc t s = (r, s') \<Longrightarrow>
     \<exists>rest. manager_calls s' = manager_calls s @ rest \<and> Log_expose \<notin> set rest"
  by (auto simp add: spill_def Let_def manager_call_def split: option.splits if_splits)

lemma stdl_log:
  "\<exists>rest. manager_calls (spill_to_device_limit v s)
            = manager_calls s @ Spill_to_device_limit # rest \<and> Log_expose \<notin> set rest"
proof (cases "v \<and> spillable (manager_call Spill_to_device_limit s)")
  case True
  obtain r s' where sp: "spill None ''cpu'' (manager_call Spill_to_device_limit s) = (r, s')"
    by (cases "spill None ''cpu'' (manager_call Spill_to_device_limit s)")
  from spill_log [OF sp] obtain rest where
    "manager_calls s' = manager_calls (manager_call Spill_to_device_limit s) @ rest"
    "Log_expose \<notin> set rest" by blast
  with True sp show ?thesis
    by (simp add: spill_to_device_limit_def Let_def manager_call_def)
next
  case False
  then show ?thesis
    by (auto simp add: spill_to_device_limit_def Let_def manager_call_def)
qed

lemma stdl_frame:
  "sb_exposed (spill_to_device_limit v s) = sb_exposed s \<and>
   sb_spill_locks (spill_to_device_limit v s) = sb_spill_locks s \<and>
   sb_size (spill_to_device_limit v s) = sb_size s"
  by (simp add: spill_to_device_limit_def Let_def manager_call_def spill_exposed spill_locks
      spill_def)


lemma ptr_unfold:
  assumes "spill alloc ''gpu''
             (if \<not> sb_exposed (spill_to_device_limit victim s)
              then manager_call Log_expose (spill_to_device_limit victim s)
              else spill_to_device_limit victim s) = (r, t)"
  shows "ptr victim alloc now s =
           (case r of Raised e \<Rightarrow> (Raised e, t)
            | Returned _ \<Rightarrow> (Returned (sb_ptr t), t\<lparr>sb_exposed := True, sb_last_accessed := now\<rparr>))"
  using assms by (simp add: ptr_def Let_def split: outcome.split)

lemma ptr_log:
  "\<exists>rest. manager_calls (snd (ptr victim alloc now s))
            = manager_calls s @ Spill_to_device_limit # rest
          \<and> count_list rest Log_expose = (if sb_exposed s then 0 else 1)"
proof -
  let ?t0 = "spill_to_device_limit victim s"
  let ?t1 = "if \<not> sb_exposed ?t0 then manager_call Log_expose ?t0 else ?t0"
  obtain r t where sp: "spill alloc ''gpu'' ?t1 = (r, t)"
    by (cases "spill alloc ''gpu'' ?t1")
  obtain rest0 where r0: "manager_calls ?t0 = manager_calls s @ Spill_to_device_limit # rest0"
    "Log_expose \<notin> set rest0" using stdl_log by blast
  obtain rest1 where r1: "manager_calls t = manager_calls ?t1 @ rest1" "Log_expose \<notin> set rest1"
    using spill_log [OF sp] by blast
  have e0: "sb_exposed ?t0 = sb_exposed s" by (simp add: stdl_frame)
  have m: "manager_calls (snd (ptr victim alloc now s)) = manager_calls t"
    by (simp add: ptr_unfold [OF sp] split: outcome.split)
  have "manager_calls t = manager_calls s @ Spill_to_device_limit #
          (rest0 @ (if sb_exposed s then [] else [Log_expose]) @ rest1)"
    using r0 r1 e0 by (simp add: manager_call_def)
  moreover have "count_list (rest0 @ (if sb_exposed s then [] else [Log_expose]) @ rest1) Log_expose
                 = (if sb_exposed s then 0 else 1)"
    using r0(2) r1(2) by (simp add: count_list_0_iff)
  ultimately show ?thesis using m by metis
qed

lemma ptr_returned:
  assumes "ptr victim alloc now s = (Returned p, s')"
  shows "sb_ptr_desc_type s' = ''gpu'' \<and> sb_exposed s' \<and> p = sb_ptr s' \<and> sb_last_accessed s' = now
         \<and> sb_spill_locks s' = sb_spill_locks s \<and> sb_size s' = sb_size s"
proof -
  let ?t0 = "spill_to_device_limit victim s"
  let ?t1 = "if \<not> sb_exposed ?t0 then manager_call Log_expose ?t0 else ?t0"
  obtain r t where sp: "spill alloc ''gpu'' ?t1 = (r, t)"
    by (cases "spill alloc ''gpu'' ?t1")
  from assms ptr_unfold [OF sp, of now] obtain u where
    r: "r = Returned u" and s': "s' = t\<lparr>sb_exposed := True, sb_last_accessed := now\<rparr>"
    and p: "p = sb_ptr t"
    by (cases r) auto
  from sp r have "sb_ptr_desc_type t = ''gpu''" by (simp add: spill_gpu_returned)
  moreover from spill_frame [OF sp] have "sb_spill_locks t = sb_spill_locks s \<and> sb_size t = sb_size s"
    by (simp add: stdl_frame manager_call_def)
  ultimately show ?thesis using s' p by simp
qed


lemma manager_call_frame:
  "well_formed (manager_call c s) = well_formed s \<and> contents (manager_call c s) = contents s
   \<and> spillable (manager_call c s) = spillable s
   \<and> sb_ptr_desc_type (manager_call c s) = sb_ptr_desc_type s"
  by (simp add: manager_call_def well_formed_def contents_def spillable_def split: option.split)

lemma spill_same: "sb_ptr_desc_type s = t \<Longrightarrow> spill alloc t s = (Returned (), s)"
  by (simp add: spill_def)

lemma spill_gpu_cpu:
  "sb_ptr_desc_type s = ''gpu'' \<Longrightarrow> spillable s \<Longrightarrow>
   spill alloc ''cpu'' s =
     (Returned (),
      manager_call (Log_spill ''gpu'' ''cpu'' (sb_size s))
        (s\<lparr>sb_ptr_desc_memoryview := Some (copy_ptr_to_host (device s) (sb_ptr s) (sb_size s)),
           sb_ptr := 0, sb_owner := None, sb_ptr_desc_type := ''cpu''\<rparr>))"
  by (simp add: spill_def Let_def)

lemma spill_cpu_gpu:
  "sb_ptr_desc_type s = ''cpu'' \<Longrightarrow> spillable s \<Longrightarrow> sb_ptr_desc_memoryview s = Some mv \<Longrightarrow>
   length mv = sb_size s \<Longrightarrow>
   spill (Some p) ''gpu'' s =
     (Returned (),
      manager_call (Log_spill ''cpu'' ''gpu'' (sb_size s))
        (s\<lparr>sb_ptr_desc_memoryview := None, device := store_bytes (device s) p mv,
           sb_ptr := p, sb_owner := Some p, sb_ptr_desc_type := ''gpu''\<rparr>))"
  by (simp add: spill_def Let_def)

lemma spill_cpu_gpu_fail:
  "sb_ptr_desc_type s = ''cpu'' \<Longrightarrow> spillable s \<Longrightarrow> sb_ptr_desc_memoryview s = Some mv \<Longrightarrow>
   spill None ''gpu'' s = (Raised MemoryError, s\<lparr>sb_ptr_desc_memoryview := None\<rparr>)"
  by (simp add: spill_def Let_def)

lemma spill_not_spillable:
  "sb_ptr_desc_type s \<noteq> t \<Longrightarrow> \<not> spillable s \<Longrightarrow>
   spill alloc t s = (Raised (ValueError ''Cannot in-place move an unspillable buffer''), s)"
  by (simp add: spill_def)

lemma spill_other_target:
  "sb_ptr_desc_type s \<noteq> t \<Longrightarrow> spillable s \<Longrightarrow>
   \<not> (sb_ptr_desc_type s = ''gpu'' \<and> t = ''cpu'') \<Longrightarrow>
   \<not> (sb_ptr_desc_type s = ''cpu'' \<and> t = ''gpu'') \<Longrightarrow>
   spill alloc t s = (Raised (ValueError (''Unknown target: '' @ t)), s)"
  by (auto simp add: spill_def Let_def)

lemma well_formed_cases:
  assumes "well_formed s"
  obtains (gpu) "sb_ptr_desc_type s = ''gpu''"
  | (cpu) mv where "sb_ptr_desc_type s = ''cpu''" "spillable s"
      "sb_ptr_desc_memoryview s = Some mv" "length mv = sb_size s"
proof (cases "sb_ptr_desc_type s = ''gpu''")
  case True
  then show ?thesis by (rule gpu)
next
  case False
  with assms have a: "sb_ptr_desc_type s = ''cpu''" and b: "spillable s"
    and c: "(case sb_ptr_desc_memoryview s of None \<Rightarrow> False | Some mv \<Rightarrow> length mv = sb_size s)"
    by (simp_all add: well_formed_def)
  from c obtain mv where "sb_ptr_desc_memoryview s = Some mv" "length mv = sb_size s"
    by (cases "sb_ptr_desc_memoryview s") simp_all
  with a b show ?thesis by (rule cpu)
qed

lemma spill_returned_cases:
  assumes "well_formed s" and "spill alloc t s = (Returned u, s')"
  obtains (same) "sb_ptr_desc_type s = t" "s' = s"
  | (to_cpu) "sb_ptr_desc_type s = ''gpu''" "t = ''cpu''" "spillable s"
      "s' = manager_call (Log_spill ''gpu'' ''cpu'' (sb_size s))
        (s\<lparr>sb_ptr_desc_memoryview := Some (copy_ptr_to_host (device s) (sb_ptr s) (sb_size s)),
           sb_ptr := 0, sb_owner := None, sb_ptr_desc_type := ''cpu''\<rparr>)"
  | (to_gpu) mv p where "sb_ptr_desc_type s = ''cpu''" "t = ''gpu''" "spillable s"
      "sb_ptr_desc_memoryview s = Some mv" "length mv = sb_size s" "alloc = Some p"
      "s' = manager_call (Log_spill ''cpu'' ''gpu'' (sb_size s))
        (s\<lparr>sb_ptr_desc_memoryview := None, device := store_bytes (device s) p mv,
           sb_ptr := p, sb_owner := Some p, sb_ptr_desc_type := ''gpu''\<rparr>)"
proof (cases "sb_ptr_desc_type s = t")
  case True
  with assms(2) have "s' = s" by (simp add: spill_same)
  with True show ?thesis by (rule same)
next
  case neq: False
  have sp: "spillable s" using assms(2) spill_not_spillable [OF neq, of alloc] by auto
  from assms(1) show ?thesis
  proof (cases rule: well_formed_cases)
    case gpu
    have t: "t = ''cpu''" using assms(2) spill_other_target [OF neq sp, of alloc] gpu by auto
    from assms(2) have "(Returned u, s') = spill alloc ''cpu'' s" by (simp add: t)
    also note spill_gpu_cpu [OF gpu sp]
    finally have "s' = manager_call (Log_spill ''gpu'' ''cpu'' (sb_size s))
        (s\<lparr>sb_ptr_desc_memoryview := Some (copy_ptr_to_host (device s) (sb_ptr s) (sb_size s)),
           sb_ptr := 0, sb_owner := None, sb_ptr_desc_type := ''cpu''\<rparr>)"
      by (rule Pair_inject)
    with gpu t sp show ?thesis by (rule to_cpu)
  next
    case (cpu mv)
    have t: "t = ''gpu''" using assms(2) spill_other_target [OF neq sp, of alloc] cpu(1) by auto
    show ?thesis
    proof (cases alloc)
      case None
      from assms(2) have "(Returned u, s') = spill None ''gpu'' s" by (simp add: t None)
      also note spill_cpu_gpu_fail [OF cpu(1) cpu(2) cpu(3)]
      finally show ?thesis by simp
    next
      case (Some p)
      from assms(2) have "(Returned u, s') = spill (Some p) ''gpu'' s" by (simp add: t Some)
      also note spill_cpu_gpu [OF cpu(1) cpu(2) cpu(3) cpu(4)]
      finally have "s' = manager_call (Log_spill ''cpu'' ''gpu'' (sb_size s))
        (s\<lparr>sb_ptr_desc_memoryview := None, device := store_bytes (device s) p mv,
           sb_ptr := p, sb_owner := Some p, sb_ptr_desc_type := ''gpu''\<rparr>)"
        by (rule Pair_inject)
      with cpu t Some show ?thesis by (intro to_gpu [of mv p])
    qed
  qed
qed

lemma spill_contents:
  assumes "well_formed s" and "spill alloc t s = (Returned u, s')"
  shows "contents s' = contents s \<and> well_formed s'"
  using assms
proof (cases rule: spill_returned_cases)
  case same
  with assms(1) show ?thesis by simp
next
  case to_cpu
  then show ?thesis
    by (simp add: manager_call_def contents_def well_formed_def spillable_def copy_ptr_to_host_def)
next
  case (to_gpu mv p)
  have "copy_ptr_to_host (store_bytes (device s) p mv) p (length mv) = mv"
    by (rule copy_store_same)
  with to_gpu show ?thesis
    by (simp add: manager_call_def contents_def well_formed_def)
qed

lemma spill_cpu_total:
  assumes "well_formed s" and "spillable s"
  shows "\<exists>s'. spill alloc ''cpu'' s = (Returned (), s') \<and> sb_ptr_desc_type s' = ''cpu''"
  using assms(1)
proof (cases rule: well_formed_cases)
  case gpu
  with assms(2) show ?thesis by (simp add: spill_gpu_cpu manager_call_def)
next
  case (cpu mv)
  then show ?thesis by (simp add: spill_same)
qed

lemma spill_gpu_total:
  assumes "well_formed s" and "alloc \<noteq> None \<or> sb_ptr_desc_type s = ''gpu''"
  shows "\<exists>s'. spill alloc ''gpu'' s = (Returned (), s')"
  using assms(1)
proof (cases rule: well_formed_cases)
  case gpu
  then show ?thesis by (simp add: spill_same)
next
  case (cpu mv)
  with assms(2) obtain p where "alloc = Some p" by auto
  with cpu show ?thesis by (simp add: spill_cpu_gpu)
qed

lemma stdl_wf:
  assumes "well_formed s"
  shows "well_formed (spill_to_device_limit v s) \<and> contents (spill_to_device_limit v s) = contents s"
proof (cases "v \<and> spillable (manager_call Spill_to_device_limit s)")
  case True
  let ?m = "manager_call Spill_to_device_limit s"
  have wf: "well_formed ?m" using assms by (simp add: manager_call_frame)
  from spill_cpu_total [OF wf, of None] True obtain s' where
    sp: "spill None ''cpu'' ?m = (Returned (), s')" by blast
  from spill_contents [OF wf sp] True sp show ?thesis
    by (simp add: spill_to_device_limit_def Let_def manager_call_frame)
next
  case False
  with assms show ?thesis
    by (auto simp add: spill_to_device_limit_def Let_def manager_call_frame)
qed

lemma ptr_total:
  assumes "well_formed s" and "alloc \<noteq> None"
  shows "\<exists>p s'. ptr victim alloc now s = (Returned p, s')"
proof -
  let ?t0 = "spill_to_device_limit victim s"
  let ?t1 = "if \<not> sb_exposed ?t0 then manager_call Log_expose ?t0 else ?t0"
  have "well_formed ?t1" using stdl_wf [OF assms(1)] by (simp add: manager_call_frame)
  from spill_gpu_total [OF this, of alloc] assms(2) obtain t where
    "spill alloc ''gpu'' ?t1 = (Returned (), t)" by blast
  from ptr_unfold [OF this] show ?thesis by simp
qed

lemma ptr_contents:
  assumes "well_formed s" and "ptr victim alloc now s = (Returned p, s')"
  shows "copy_ptr_to_host (device s') p (sb_size s') = contents s \<and> well_formed s'"
proof -
  let ?t0 = "spill_to_device_limit victim s"
  let ?t1 = "if \<not> sb_exposed ?t0 then manager_call Log_expose ?t0 else ?t0"
  obtain r t where sp: "spill alloc ''gpu'' ?t1 = (r, t)"
    by (cases "spill alloc ''gpu'' ?t1")
  from assms(2) ptr_unfold [OF sp, of now] obtain u where
    r: "r = Returned u" and s': "s' = t\<lparr>sb_exposed := True, sb_last_accessed := now\<rparr>"
    and p: "p = sb_ptr t"
    by (cases r) auto
  have wf1: "well_formed ?t1" and c1: "contents ?t1 = contents s"
    using stdl_wf [OF assms(1)] by (simp_all add: manager_call_frame)
  from sp r have sp': "spill alloc ''gpu'' ?t1 = (Returned u, t)" by simp
  from spill_contents [OF wf1 sp'] c1 have c: "contents t = contents s" and wft: "well_formed t"
    by simp_all
  from sp r have g: "sb_ptr_desc_type t = ''gpu''" by (simp add: spill_gpu_returned)
  from c g s' p wft show ?thesis by (simp add: contents_def well_formed_def)
qed


lemma spill_lock_frame:
  "spill_lock la f alloc s = (r, s') \<Longrightarrow>
     sb_exposed s' = sb_exposed s \<and> sb_size s' = sb_size s \<and>
     (case r of Raised e \<Rightarrow> sb_spill_locks s' = sb_spill_locks s
      | Returned _ \<Rightarrow> sb_spill_locks s' =
          (case la of None \<Rightarrow> removeAll f (sb_spill_locks s)
           | Some l \<Rightarrow> List.insert l (sb_spill_locks s))
          \<and> sb_ptr_desc_type s' = ''gpu'')"
  by (auto simp add: spill_lock_def lock_unreachable_def Let_def List.insert_def
      split: prod.splits outcome.splits option.splits
      dest: spill_frame spill_gpu_returned)

lemma ptr_exposed:
  "sb_exposed s \<Longrightarrow> sb_exposed (snd (ptr v a now s))"
proof -
  assume e: "sb_exposed s"
  let ?t0 = "spill_to_device_limit v s"
  let ?t1 = "if \<not> sb_exposed ?t0 then manager_call Log_expose ?t0 else ?t0"
  obtain r t where sp: "spill a ''gpu'' ?t1 = (r, t)" by (cases "spill a ''gpu'' ?t1")
  from spill_frame [OF sp] e have "sb_exposed t" by (simp add: stdl_frame)
  then show ?thesis by (simp add: ptr_unfold [OF sp] split: outcome.split)
qed

lemma get_ptr_exposed:
  "sb_exposed s \<Longrightarrow> sb_exposed (snd (get_ptr la v a now s))"
  by (cases la)
     (auto simp add: get_ptr_def ptr_exposed split: prod.splits outcome.splits
       dest: spill_lock_frame)

lemma memoryview_exposed:
  "sb_exposed (snd (memoryview off sz s)) = sb_exposed s"
  by (auto simp add: memoryview_def Let_def split: prod.splits outcome.splits option.splits
      dest: spill_frame)

lemma exec_exposed: "sb_exposed s \<Longrightarrow> sb_exposed (exec op s)"
proof (cases op)
  case (Op_spill a t)
  then show "sb_exposed s \<Longrightarrow> ?thesis" by (simp add: spill_exposed)
next
  case (Op_ptr v a n)
  then show "sb_exposed s \<Longrightarrow> ?thesis" by (simp add: ptr_exposed)
next
  case (Op_mutable_ptr l a n)
  then show "sb_exposed s \<Longrightarrow> ?thesis"
    using get_ptr_exposed [of s "Some l" False a n]
    by (cases "get_ptr (Some l) False a n s") (simp add: mutable_ptr_def lock_unreachable_def)
next
  case (Op_spill_lock la f a)
  then show "sb_exposed s \<Longrightarrow> ?thesis"
    using spill_lock_frame [of la f a s] by (cases "spill_lock la f a s") auto
next
  case (Op_get_ptr la v a n)
  then show "sb_exposed s \<Longrightarrow> ?thesis" by (simp add: get_ptr_exposed)
next
  case (Op_memoryview off sz)
  then show "sb_exposed s \<Longrightarrow> ?thesis" by (simp add: memoryview_exposed)
next
  case Op_cuda_array_interface
  then show "sb_exposed s \<Longrightarrow> ?thesis" by (simp add: cuda_array_interface_def)
next
  case (Op_delayed_getitem i v a n)
  then show "sb_exposed s \<Longrightarrow> ?thesis"
    using ptr_exposed [of s v a n]
    by (auto simp add: delayed_getitem_def split: prod.splits outcome.splits)
next
  case (Op_serialize l a n)
  then show "sb_exposed s \<Longrightarrow> ?thesis"
    using get_ptr_exposed [of s "Some l" False a n] memoryview_exposed [of 0 None s]
    by (auto simp add: serialize_def split: prod.splits outcome.splits)
next
  case (Op_spill_to_device_limit v)
  then show "sb_exposed s \<Longrightarrow> ?thesis" by (simp add: stdl_frame)
next
  case (Op_lock_unreachable l)
  then show "sb_exposed s \<Longrightarrow> ?thesis" by (simp add: lock_unreachable_def)
qed

lemma execs_exposed: "sb_exposed s \<Longrightarrow> sb_exposed (execs ops s)"
  by (induction ops arbitrary: s) (simp_all add: exec_exposed)

lemma ptr_host_buffer:
  "ptr False (Some 4096) 5 host_buffer =
     (Returned 4096,
      host_buffer\<lparr>sb_ptr_desc_type := ''gpu'', sb_ptr_desc_memoryview := None, sb_ptr := 4096,
        sb_owner := Some 4096, sb_exposed := True, sb_last_accessed := 5,
        device := store_bytes (\<lambda>_. 0) 4096 [1, 2, 3],
        manager_calls := [Add, Spill_to_device_limit, Log_expose, Log_spill ''cpu'' ''gpu'' 3]\<rparr>)"
  by (simp add: ptr_def spill_to_device_limit_def spill_def manager_call_def host_buffer_def
      spillable_def Let_def)

section \<open>Exposure\<close>

text \<open>
  C5. Reading \<^verbatim>\<open>ptr\<close>, which is also what \<^verbatim>\<open>get_ptr\<close> does when no lock is given, first
  calls the manager's \<^verbatim>\<open>spill_to_device_limit\<close>; it logs one exposure event when the buffer
  was not yet exposed and none when it was; with a well-formed buffer and a successful
  allocation it returns. When it returns, the buffer is on the device and exposed, the
  address returned is the buffer's device address and holds the buffer's bytes, and after
  any run of further operations the buffer is still exposed and not spillable.
\<close>

theorem ptr_exposes_permanently:
  "get_ptr None victim alloc now s = ptr victim alloc now s
   \<and> (\<exists>rest. manager_calls (snd (ptr victim alloc now s))
                = manager_calls s @ Spill_to_device_limit # rest
              \<and> count_list rest Log_expose = (if exposed s then 0 else 1))
   \<and> (well_formed s \<and> alloc \<noteq> None \<longrightarrow> (\<exists>q t. ptr victim alloc now s = (Returned q, t)))
   \<and> (ptr victim alloc now s = (Returned p, s') \<longrightarrow>
        \<not> is_spilled s' \<and> exposed s' \<and> p = sb_ptr s'
        \<and> (well_formed s \<longrightarrow> copy_ptr_to_host (device s') p (sb_size s') = contents s)
        \<and> exposed (execs ops s') \<and> \<not> spillable (execs ops s'))"
proof (intro conjI impI)
  show "get_ptr None victim alloc now s = ptr victim alloc now s"
    by (simp add: get_ptr_def)
  show "\<exists>rest. manager_calls (snd (ptr victim alloc now s))
                = manager_calls s @ Spill_to_device_limit # rest
              \<and> count_list rest Log_expose = (if exposed s then 0 else 1)"
    using ptr_log [of victim alloc now s] by (simp add: exposed_def)
next
  assume "well_formed s \<and> alloc \<noteq> None"
  then show "\<exists>q t. ptr victim alloc now s = (Returned q, t)"
    using ptr_total by blast
next
  assume r: "ptr victim alloc now s = (Returned p, s')"
  from ptr_returned [OF r] show "\<not> is_spilled s'" "exposed s'" "p = sb_ptr s'"
    by (simp_all add: is_spilled_def exposed_def)
  from ptr_returned [OF r] have e: "sb_exposed s'" by simp
  from execs_exposed [OF e] show "exposed (execs ops s')" "\<not> spillable (execs ops s')"
    by (simp_all add: exposed_def spillable_def)
next
  assume r: "ptr victim alloc now s = (Returned p, s')" and wf: "well_formed s"
  from ptr_contents [OF wf r] show "copy_ptr_to_host (device s') p (sb_size s') = contents s"
    by simp
qed

theorem ptr_exposes_permanently_witness:
  "well_formed host_buffer
   \<and> fst (ptr False (Some 4096) 5 host_buffer) = Returned 4096
   \<and> exposed (snd (ptr False (Some 4096) 5 host_buffer))
   \<and> copy_ptr_to_host (device (snd (ptr False (Some 4096) 5 host_buffer))) 4096 3 = [1, 2, 3]
   \<and> \<not> spillable (execs [Op_lock_unreachable 0, Op_spill None ''cpu'']
                      (snd (ptr False (Some 4096) 5 host_buffer)))"
proof -
  have wf: "well_formed host_buffer"
    by (simp add: well_formed_def host_buffer_def spillable_def)
  have c: "contents host_buffer = [1, 2, 3]" "sb_size host_buffer = 3"
    by (simp_all add: contents_def host_buffer_def)
  obtain s' where r: "ptr False (Some 4096) 5 host_buffer = (Returned 4096, s')"
    using ptr_host_buffer by blast
  have sz: "sb_size s' = 3" using r ptr_host_buffer by (simp add: host_buffer_def)
  from ptr_exposes_permanently [where s = host_buffer and victim = False and alloc = "Some 4096"
      and now = 5 and p = 4096 and s' = s'
      and ops = "[Op_lock_unreachable 0, Op_spill None ''cpu'']"] r wf c sz
  show ?thesis by simp
qed

section \<open>Spill locks\<close>

lemma get_ptr_lock_unfold:
  assumes "spill alloc ''gpu'' s = (r, t)"
  shows "get_ptr (Some l) victim alloc now s =
           (case r of Raised e \<Rightarrow> (Raised e, t)
            | Returned _ \<Rightarrow>
                (Returned (sb_ptr t),
                 t\<lparr>sb_spill_locks := List.insert l (sb_spill_locks t), sb_last_accessed := now\<rparr>))"
  using assms by (simp add: get_ptr_def spill_lock_def Let_def split: outcome.split)

lemma mutable_ptr_unfold:
  assumes "spill alloc ''gpu'' s = (r, t)"
  shows "mutable_ptr l alloc now s =
           (case r of Raised e \<Rightarrow> (Raised e, lock_unreachable l t)
            | Returned _ \<Rightarrow>
                (Returned (sb_ptr t),
                 t\<lparr>sb_spill_locks := removeAll l (sb_spill_locks t), sb_last_accessed := now\<rparr>))"
  by (simp add: mutable_ptr_def get_ptr_lock_unfold [OF assms] lock_unreachable_def
      List.insert_def split: outcome.split)

lemma mutable_ptr_exposed:
  "sb_exposed (snd (mutable_ptr l alloc now s)) = sb_exposed s"
proof -
  obtain r t where sp: "spill alloc ''gpu'' s = (r, t)" by (cases "spill alloc ''gpu'' s")
  from spill_frame [OF sp] show ?thesis
    by (simp add: mutable_ptr_unfold [OF sp] lock_unreachable_def split: outcome.split)
qed

lemma mutable_ptr_returned:
  assumes "mutable_ptr l alloc now s = (Returned p, s')"
  shows "sb_ptr_desc_type s' = ''gpu'' \<and> p = sb_ptr s'
         \<and> sb_spill_locks s' = removeAll l (sb_spill_locks s)
         \<and> sb_exposed s' = sb_exposed s \<and> sb_last_accessed s' = now
         \<and> (well_formed s \<longrightarrow> well_formed s' \<and> contents s' = contents s)"
proof -
  obtain r t where sp: "spill alloc ''gpu'' s = (r, t)" by (cases "spill alloc ''gpu'' s")
  from assms mutable_ptr_unfold [OF sp, of l now] obtain u where
    r: "r = Returned u"
    and s': "s' = t\<lparr>sb_spill_locks := removeAll l (sb_spill_locks t), sb_last_accessed := now\<rparr>"
    and p: "p = sb_ptr t"
    by (cases r) auto
  from sp r have sp': "spill alloc ''gpu'' s = (Returned u, t)" by simp
  from sp' have g: "sb_ptr_desc_type t = ''gpu''" by (rule spill_gpu_returned)
  have wf: "well_formed s \<longrightarrow> well_formed s' \<and> contents s' = contents s"
  proof
    assume w: "well_formed s"
    from spill_contents [OF w sp'] g s' show "well_formed s' \<and> contents s' = contents s"
      by (simp add: well_formed_def contents_def)
  qed
  from spill_frame [OF sp] g s' p wf show ?thesis by simp
qed

lemma mutable_ptr_total:
  assumes "well_formed s" and "alloc \<noteq> None \<or> sb_ptr_desc_type s = ''gpu''"
  shows "\<exists>p s'. mutable_ptr l alloc now s = (Returned p, s')"
proof -
  from spill_gpu_total [OF assms] obtain t where sp: "spill alloc ''gpu'' s = (Returned (), t)"
    by blast
  show ?thesis by (simp add: mutable_ptr_unfold [OF sp])
qed

lemma get_ptr_lock_returned:
  assumes "get_ptr (Some l) victim alloc now s = (Returned q, t)"
  shows "sb_spill_locks t = List.insert l (sb_spill_locks s)"
proof -
  obtain r u where sp: "spill alloc ''gpu'' s = (r, u)" by (cases "spill alloc ''gpu'' s")
  from assms get_ptr_lock_unfold [OF sp, of l victim now] spill_frame [OF sp]
  show ?thesis by (cases r) auto
qed

lemma get_ptr_host_buffer:
  "get_ptr (Some 7) False (Some 4096) 5 host_buffer =
     (Returned 4096,
      host_buffer\<lparr>sb_ptr_desc_type := ''gpu'', sb_ptr_desc_memoryview := None, sb_ptr := 4096,
        sb_owner := Some 4096, sb_spill_locks := [7], sb_last_accessed := 5,
        device := store_bytes (\<lambda>_. 0) 4096 [1, 2, 3],
        manager_calls := [Add, Log_spill ''cpu'' ''gpu'' 3]\<rparr>)"
  by (simp add: get_ptr_def spill_lock_def spill_def manager_call_def host_buffer_def
      spillable_def Let_def)

lemma mutable_ptr_host_buffer:
  "mutable_ptr 7 (Some 4096) 5 host_buffer =
     (Returned 4096,
      host_buffer\<lparr>sb_ptr_desc_type := ''gpu'', sb_ptr_desc_memoryview := None, sb_ptr := 4096,
        sb_owner := Some 4096, sb_last_accessed := 5,
        device := store_bytes (\<lambda>_. 0) 4096 [1, 2, 3],
        manager_calls := [Add, Log_spill ''cpu'' ''gpu'' 3]\<rparr>)"
  by (simp add: mutable_ptr_def get_ptr_def spill_lock_def lock_unreachable_def spill_def
      manager_call_def host_buffer_def spillable_def Let_def)


text \<open>
  C9. \<^verbatim>\<open>mutable_ptr\<close> is \<^verbatim>\<open>get_ptr\<close> called with a new lock that is dropped when the call is
  over: its result is that of \<^verbatim>\<open>get_ptr\<close>, and its final state is that of \<^verbatim>\<open>get_ptr\<close> without the
  lock. It never changes the exposed flag, and on a well-formed buffer it returns whenever
  the allocation succeeds. When it returns, the buffer is on the device, the address is the
  buffer's device address, and the new lock is not among the buffer's locks: the locks are
  those held before the call. So a buffer that was neither exposed nor locked before the
  call is spillable as soon as the caller has the address, and a spill to the host then
  succeeds and takes the data away from that address. A lock that the caller holds behaves
  otherwise: after \<^verbatim>\<open>get_ptr\<close> with such a lock the buffer is not spillable and the same spill
  is refused.
\<close>

theorem mutable_ptr_lock_not_retained:
  "fst (mutable_ptr new_lock alloc now s) = fst (get_ptr (Some new_lock) False alloc now s)
   \<and> snd (mutable_ptr new_lock alloc now s)
       = lock_unreachable new_lock (snd (get_ptr (Some new_lock) False alloc now s))
   \<and> exposed (snd (mutable_ptr new_lock alloc now s)) = exposed s
   \<and> (well_formed s \<and> alloc \<noteq> None \<longrightarrow>
        (\<exists>q t. mutable_ptr new_lock alloc now s = (Returned q, t)))
   \<and> (mutable_ptr new_lock alloc now s = (Returned p, s') \<longrightarrow>
        \<not> is_spilled s' \<and> p = sb_ptr s'
        \<and> new_lock \<notin> set (sb_spill_locks s')
        \<and> sb_spill_locks s' = removeAll new_lock (sb_spill_locks s)
        \<and> (new_lock \<notin> set (sb_spill_locks s) \<longrightarrow>
             sb_spill_locks s' = sb_spill_locks s \<and> spillable s' = spillable s)
        \<and> (\<not> exposed s \<and> sb_spill_locks s = [] \<longrightarrow>
             spillable s'
             \<and> fst (spill None ''cpu'' s') = Returned ()
             \<and> is_spilled (snd (spill None ''cpu'' s'))
             \<and> sb_ptr (snd (spill None ''cpu'' s')) = 0))
   \<and> (get_ptr (Some held_lock) False alloc now s = (Returned q, t) \<longrightarrow>
        held_lock \<in> set (sb_spill_locks t) \<and> \<not> spillable t
        \<and> spill None ''cpu'' t
            = (Raised (ValueError ''Cannot in-place move an unspillable buffer''), t))"
proof (intro conjI impI)
  show "fst (mutable_ptr new_lock alloc now s)
          = fst (get_ptr (Some new_lock) False alloc now s)"
    "snd (mutable_ptr new_lock alloc now s)
       = lock_unreachable new_lock (snd (get_ptr (Some new_lock) False alloc now s))"
    by (simp_all add: mutable_ptr_def split: prod.split)
  show "exposed (snd (mutable_ptr new_lock alloc now s)) = exposed s"
    by (simp add: exposed_def mutable_ptr_exposed)
next
  assume "well_formed s \<and> alloc \<noteq> None"
  then show "\<exists>q t. mutable_ptr new_lock alloc now s = (Returned q, t)"
    using mutable_ptr_total by blast
next
  assume r: "mutable_ptr new_lock alloc now s = (Returned p, s')"
  note f = mutable_ptr_returned [OF r]
  from f show "\<not> is_spilled s'" "p = sb_ptr s'"
    "sb_spill_locks s' = removeAll new_lock (sb_spill_locks s)"
    "new_lock \<notin> set (sb_spill_locks s')"
    by (simp_all add: is_spilled_def)
next
  assume r: "mutable_ptr new_lock alloc now s = (Returned p, s')"
    and fresh: "new_lock \<notin> set (sb_spill_locks s)"
  note f = mutable_ptr_returned [OF r]
  from f fresh show l: "sb_spill_locks s' = sb_spill_locks s" by simp
  from f l show "spillable s' = spillable s" by (simp add: spillable_def)
next
  assume r: "mutable_ptr new_lock alloc now s = (Returned p, s')"
    and free: "\<not> exposed s \<and> sb_spill_locks s = []"
  note f = mutable_ptr_returned [OF r]
  from f free show sp: "spillable s'" by (simp add: spillable_def exposed_def)
  from f have g: "sb_ptr_desc_type s' = ''gpu''" by simp
  from spill_gpu_cpu [OF g sp, of None]
  show "fst (spill None ''cpu'' s') = Returned ()"
    "is_spilled (snd (spill None ''cpu'' s'))"
    "sb_ptr (snd (spill None ''cpu'' s')) = 0"
    by (simp_all add: is_spilled_def manager_call_def)
next
  assume r: "get_ptr (Some held_lock) False alloc now s = (Returned q, t)"
  obtain x u where sp: "spill alloc ''gpu'' s = (x, u)" by (cases "spill alloc ''gpu'' s")
  from r get_ptr_lock_unfold [OF sp, of held_lock False now] obtain v where
    x: "x = Returned v" by (cases x) auto
  from sp x have g: "sb_ptr_desc_type u = ''gpu''" by (simp add: spill_gpu_returned)
  from r get_ptr_lock_unfold [OF sp, of held_lock False now] x g
  have gt: "sb_ptr_desc_type t = ''gpu''" by auto
  from get_ptr_lock_returned [OF r] show m: "held_lock \<in> set (sb_spill_locks t)" by simp
  from m show ns: "\<not> spillable t" by (auto simp add: spillable_def)
  from gt have "sb_ptr_desc_type t \<noteq> ''cpu''" by simp
  from spill_not_spillable [OF this ns]
  show "spill None ''cpu'' t
          = (Raised (ValueError ''Cannot in-place move an unspillable buffer''), t)" .
qed

theorem mutable_ptr_lock_not_retained_witness:
  "well_formed host_buffer \<and> \<not> exposed host_buffer \<and> sb_spill_locks host_buffer = []
   \<and> fst (mutable_ptr 7 (Some 4096) 5 host_buffer) = Returned 4096
   \<and> sb_spill_locks (snd (mutable_ptr 7 (Some 4096) 5 host_buffer)) = []
   \<and> spillable (snd (mutable_ptr 7 (Some 4096) 5 host_buffer))
   \<and> is_spilled (snd (spill None ''cpu'' (snd (mutable_ptr 7 (Some 4096) 5 host_buffer))))
   \<and> fst (get_ptr (Some 7) False (Some 4096) 5 host_buffer) = Returned 4096
   \<and> \<not> spillable (snd (get_ptr (Some 7) False (Some 4096) 5 host_buffer))
   \<and> fst (spill None ''cpu'' (snd (get_ptr (Some 7) False (Some 4096) 5 host_buffer)))
       = Raised (ValueError ''Cannot in-place move an unspillable buffer'')"
proof -
  have wf: "well_formed host_buffer" "\<not> exposed host_buffer" "sb_spill_locks host_buffer = []"
    "spillable host_buffer"
    by (simp_all add: well_formed_def host_buffer_def spillable_def exposed_def)
  note m = mutable_ptr_host_buffer
  note g = get_ptr_host_buffer
  from mutable_ptr_lock_not_retained [where s = host_buffer and new_lock = 7
      and alloc = "Some 4096" and now = 5 and p = 4096 and held_lock = 7 and q = 4096
      and s' = "snd (mutable_ptr 7 (Some 4096) 5 host_buffer)"
      and t = "snd (get_ptr (Some 7) False (Some 4096) 5 host_buffer)"] wf
  show ?thesis by (simp add: m g lock_unreachable_def)
qed


section \<open>memoryview\<close>

lemma contents_device_buffers:
  "contents device_buffer = [7, 8, 9]" "contents exposed_device_buffer = [7, 8, 9]"
  using copy_store_same [of "\<lambda>_. 0" 4096 "[7, 8, 9]"]
  by (simp_all add: contents_def device_buffer_def exposed_device_buffer_def numeral_3_eq_3)


text \<open>
  C10, as the spec states it, fails: \<^verbatim>\<open>memoryview\<close> checks neither the offset nor the size
  against the buffer. With \<^verbatim>\<open>offset=1\<close> and the size omitted on a buffer of the three bytes
  7, 8, 9, the request is for three bytes from offset 1, of which the buffer holds two. On
  the spillable buffer the slice of the host \<^verbatim>\<open>memoryview\<close> is clamped and the result is
  those two bytes; on the exposed buffer three bytes are copied from the device address
  plus one, the third of them from beyond the buffer's memory, so the result is not the
  buffer's contents at that offset and size, and the two cases disagree on the same
  contents.
\<close>

theorem memoryview_out_of_range_counterexample:
  "\<not> spillable exposed_device_buffer \<and> \<not> is_spilled exposed_device_buffer
   \<and> contents exposed_device_buffer = [7, 8, 9]
   \<and> memoryview 1 None exposed_device_buffer
       = (Returned (Fresh_copy [8, 9, 0]), exposed_device_buffer)
   \<and> py_slice (contents exposed_device_buffer) 1 (1 + 3) = [8, 9]
   \<and> take 3 (drop 1 (contents exposed_device_buffer)) = [8, 9]
   \<and> spillable device_buffer \<and> contents device_buffer = [7, 8, 9]
   \<and> fst (memoryview 1 None device_buffer) = Returned (View_of_host [8, 9])"
proof -
  have a: "\<not> spillable exposed_device_buffer" "\<not> is_spilled exposed_device_buffer"
    "spillable device_buffer"
    by (simp_all add: spillable_def is_spilled_def exposed_device_buffer_def device_buffer_def)
  have b: "memoryview 1 None exposed_device_buffer
       = (Returned (Fresh_copy [8, 9, 0]), exposed_device_buffer)"
    by (simp add: memoryview_def spillable_def exposed_device_buffer_def copy_ptr_to_host_def
        store_bytes_def numeral_3_eq_3)
  have c: "py_slice [7, 8, 9 :: byte] 1 (1 + 3) = [8, 9]"
    by (simp add: py_slice_def py_index_def)
  have d: "fst (memoryview 1 None device_buffer) = Returned (View_of_host [8, 9])"
    by (simp add: memoryview_def spill_def spillable_def manager_call_def device_buffer_def
        copy_ptr_to_host_def store_bytes_def py_slice_def py_index_def Let_def numeral_3_eq_3)
  from a b c d show ?thesis by (simp add: contents_device_buffers)
qed

text \<open>
  C10, amended. For a well-formed buffer and a range inside it (\<open>0 \<le> offset\<close>,
  \<open>0 \<le> size\<close>, \<open>offset + size\<close> at most the buffer's size; an omitted size is the buffer's
  size): when the buffer is spillable, \<^verbatim>\<open>memoryview\<close> moves it to the host and returns a
  view of its own host bytes; when it is not spillable and on the device, \<^verbatim>\<open>memoryview\<close>
  returns a new host copy and leaves the state, the location included, as it was. Either
  way the bytes returned are the buffer's contents at the requested offset and size.
\<close>

theorem memoryview_spills_or_copies:
  assumes "well_formed s" and "0 \<le> offset" and "0 \<le> sz" and "offset + sz \<le> int (sb_size s)"
  shows "memoryview offset None s = memoryview offset (Some (int (sb_size s))) s
    \<and> (spillable s \<longrightarrow>
         (\<exists>s'. memoryview offset (Some sz) s =
                  (Returned (View_of_host (take (nat sz) (drop (nat offset) (contents s)))), s')
               \<and> is_spilled s' \<and> sb_ptr_desc_type s' = ''cpu''
               \<and> sb_ptr_desc_memoryview s' = Some (contents s)))
    \<and> (\<not> spillable s \<and> \<not> is_spilled s \<longrightarrow>
         memoryview offset (Some sz) s =
           (Returned (Fresh_copy (take (nat sz) (drop (nat offset) (contents s)))), s))"
proof (intro conjI impI)
  show "memoryview offset None s = memoryview offset (Some (int (sb_size s))) s"
    by (simp add: memoryview_def)
next
  assume sp: "spillable s"
  from spill_cpu_total [OF assms(1) sp, of None] obtain s' where
    r: "spill None ''cpu'' s = (Returned (), s')" and c: "sb_ptr_desc_type s' = ''cpu''"
    by blast
  from spill_contents [OF assms(1) r] have cs: "contents s' = contents s" and wf: "well_formed s'"
    by simp_all
  from wf c obtain mv where mv: "sb_ptr_desc_memoryview s' = Some mv" "length mv = sb_size s'"
    by (cases rule: well_formed_cases) simp_all
  from mv c cs have mvc: "mv = contents s" by (simp add: contents_def)
  from spill_frame [OF r] mv have len: "int (length mv) = int (sb_size s)" by simp
  have "py_slice mv offset (offset + sz) = take (nat sz) (drop (nat offset) mv)"
    using assms(2,3,4) len by (simp add: py_slice_in_range)
  with sp r mv mvc c
  have "memoryview offset (Some sz) s =
          (Returned (View_of_host (take (nat sz) (drop (nat offset) (contents s)))), s')
        \<and> is_spilled s' \<and> sb_ptr_desc_type s' = ''cpu''
        \<and> sb_ptr_desc_memoryview s' = Some (contents s)"
    by (simp add: memoryview_def is_spilled_def)
  then show "\<exists>s'. memoryview offset (Some sz) s =
                  (Returned (View_of_host (take (nat sz) (drop (nat offset) (contents s)))), s')
               \<and> is_spilled s' \<and> sb_ptr_desc_type s' = ''cpu''
               \<and> sb_ptr_desc_memoryview s' = Some (contents s)" by blast
next
  assume a: "\<not> spillable s \<and> \<not> is_spilled s"
  then have g: "sb_ptr_desc_type s = ''gpu''" by (simp add: is_spilled_def)
  have le: "nat offset + nat sz \<le> sb_size s" using assms(2,3,4) by linarith
  have "copy_ptr_to_host (device s) (sb_ptr s + int (nat offset)) (nat sz)
          = take (nat sz) (drop (nat offset) (copy_ptr_to_host (device s) (sb_ptr s) (sb_size s)))"
    using le by (rule copy_ptr_to_host_sub)
  with assms(2) have "copy_ptr_to_host (device s) (sb_ptr s + offset) (nat sz)
          = take (nat sz) (drop (nat offset) (contents s))"
    using g by (simp add: contents_def)
  with a g assms(3) show "memoryview offset (Some sz) s =
           (Returned (Fresh_copy (take (nat sz) (drop (nat offset) (contents s)))), s)"
    by (simp add: memoryview_def)
qed

theorem memoryview_spills_or_copies_witness:
  "well_formed device_buffer \<and> spillable device_buffer
   \<and> fst (memoryview 1 (Some 2) device_buffer) = Returned (View_of_host [8, 9])
   \<and> is_spilled (snd (memoryview 1 (Some 2) device_buffer))
   \<and> well_formed exposed_device_buffer \<and> \<not> spillable exposed_device_buffer
   \<and> memoryview 1 (Some 2) exposed_device_buffer
       = (Returned (Fresh_copy [8, 9]), exposed_device_buffer)"
proof -
  have a: "well_formed device_buffer" "spillable device_buffer" "sb_size device_buffer = 3"
    by (simp_all add: well_formed_def device_buffer_def spillable_def)
  have b: "well_formed exposed_device_buffer" "\<not> spillable exposed_device_buffer"
    "\<not> is_spilled exposed_device_buffer" "sb_size exposed_device_buffer = 3"
    by (simp_all add: well_formed_def exposed_device_buffer_def spillable_def is_spilled_def)
  have "(1::int) + 2 \<le> int (sb_size device_buffer)" by (simp add: a)
  from memoryview_spills_or_copies [OF a(1) _ _ this] a(2)
  obtain s' where "memoryview 1 (Some 2) device_buffer =
       (Returned (View_of_host (take (nat 2) (drop (nat 1) (contents device_buffer)))), s')"
     "is_spilled s'" by auto
  then have c: "fst (memoryview 1 (Some 2) device_buffer) = Returned (View_of_host [8, 9])"
     "is_spilled (snd (memoryview 1 (Some 2) device_buffer))"
    by (simp_all add: contents_device_buffers)
  have "(1::int) + 2 \<le> int (sb_size exposed_device_buffer)" by (simp add: b)
  from memoryview_spills_or_copies [OF b(1) _ _ this] b(2,3)
  have "memoryview 1 (Some 2) exposed_device_buffer =
     (Returned (Fresh_copy (take (nat 2) (drop (nat 1) (contents exposed_device_buffer)))),
      exposed_device_buffer)" by auto
  then have d: "memoryview 1 (Some 2) exposed_device_buffer
       = (Returned (Fresh_copy [8, 9]), exposed_device_buffer)"
    by (simp add: contents_device_buffers)
  from a b c d show ?thesis by simp
qed


section \<open>The CUDA array interface of a spillable buffer\<close>

text \<open>
  C8. Building \<^verbatim>\<open>__cuda_array_interface__\<close> returns a descriptor whose data field is a
  \<^verbatim>\<open>DelayedPointerTuple\<close> and leaves the whole state (location, exposed flag, lock set,
  last access time) unchanged; so do the tuple's length and its element 1, and any other
  index but 0 raises \<^verbatim>\<open>IndexError\<close>. Element 0 is the property \<^verbatim>\<open>ptr\<close>: when it returns, the
  buffer is on the device, exposed and unspillable, and on a well-formed buffer it returns
  whenever the allocation succeeds.
\<close>

theorem cuda_array_interface_is_lazy:
  "cuda_array_interface s =
     (Returned \<lparr>cai_data = DelayedPointerTuple, cai_shape = [sb_size s], cai_strides = None,
                cai_typestr = ''|u1'', cai_version = 0\<rparr>, s)
   \<and> delayed_len s = (Returned 2, s)
   \<and> delayed_getitem 1 victim alloc now s = (Returned (Item_bool False), s)
   \<and> (i \<noteq> 0 \<and> i \<noteq> 1 \<longrightarrow>
        delayed_getitem i victim alloc now s
          = (Raised (IndexError ''tuple index out of range''), s))
   \<and> (ptr victim alloc now s = (Raised e, t) \<longrightarrow>
        delayed_getitem 0 victim alloc now s = (Raised e, t))
   \<and> (ptr victim alloc now s = (Returned p, t) \<longrightarrow>
        delayed_getitem 0 victim alloc now s = (Returned (Item_int p), t)
        \<and> \<not> is_spilled t \<and> exposed t \<and> \<not> spillable t \<and> p = sb_ptr t)
   \<and> (well_formed s \<and> alloc \<noteq> None \<longrightarrow>
        (\<exists>q u. delayed_getitem 0 victim alloc now s = (Returned (Item_int q), u)))"
proof (intro conjI impI)
  show "cuda_array_interface s =
     (Returned \<lparr>cai_data = DelayedPointerTuple, cai_shape = [sb_size s], cai_strides = None,
                cai_typestr = ''|u1'', cai_version = 0\<rparr>, s)"
    by (simp add: cuda_array_interface_def)
  show "delayed_len s = (Returned 2, s)" by (simp add: delayed_len_def)
  show "delayed_getitem 1 victim alloc now s = (Returned (Item_bool False), s)"
    by (simp add: delayed_getitem_def)
next
  assume "i \<noteq> 0 \<and> i \<noteq> 1"
  then show "delayed_getitem i victim alloc now s
          = (Raised (IndexError ''tuple index out of range''), s)"
    by (simp add: delayed_getitem_def)
next
  assume "ptr victim alloc now s = (Raised e, t)"
  then show "delayed_getitem 0 victim alloc now s = (Raised e, t)"
    by (simp add: delayed_getitem_def)
next
  assume r: "ptr victim alloc now s = (Returned p, t)"
  then show "delayed_getitem 0 victim alloc now s = (Returned (Item_int p), t)"
    by (simp add: delayed_getitem_def)
  from ptr_returned [OF r] show "\<not> is_spilled t" "exposed t" "\<not> spillable t" "p = sb_ptr t"
    by (simp_all add: is_spilled_def exposed_def spillable_def)
next
  assume "well_formed s \<and> alloc \<noteq> None"
  then obtain q u where "ptr victim alloc now s = (Returned q, u)"
    using ptr_total by blast
  then show "\<exists>q u. delayed_getitem 0 victim alloc now s = (Returned (Item_int q), u)"
    by (simp add: delayed_getitem_def)
qed

theorem cuda_array_interface_is_lazy_witness:
  "snd (cuda_array_interface host_buffer) = host_buffer
   \<and> is_spilled (snd (cuda_array_interface host_buffer))
   \<and> \<not> exposed (snd (cuda_array_interface host_buffer))
   \<and> fst (delayed_getitem 0 False (Some 4096) 5 host_buffer) = Returned (Item_int 4096)
   \<and> \<not> is_spilled (snd (delayed_getitem 0 False (Some 4096) 5 host_buffer))
   \<and> exposed (snd (delayed_getitem 0 False (Some 4096) 5 host_buffer))
   \<and> fst (delayed_getitem 2 False (Some 4096) 5 host_buffer)
       = Raised (IndexError ''tuple index out of range'')"
proof -
  obtain t where r: "ptr False (Some 4096) 5 host_buffer = (Returned 4096, t)"
    using ptr_host_buffer by blast
  have h: "is_spilled host_buffer" "\<not> exposed host_buffer"
    by (simp_all add: is_spilled_def exposed_def host_buffer_def)
  from cuda_array_interface_is_lazy [where s = host_buffer and victim = False
      and alloc = "Some 4096" and now = 5 and p = 4096 and t = t and i = 2] r h
  show ?thesis by simp
qed


section \<open>Slices share the state of their base\<close>

lemma get_ptr_device_buffer:
  "get_ptr (Some 7) False None 5 device_buffer =
     (Returned 4096, device_buffer\<lparr>sb_spill_locks := [7], sb_last_accessed := 5\<rparr>)"
  by (simp add: get_ptr_def spill_lock_def spill_def device_buffer_def Let_def)


text \<open>
  C7. A slice is an offset and a size over its base: \<^verbatim>\<open>spill\<close>, \<^verbatim>\<open>spill_lock\<close>,
  \<^verbatim>\<open>is_spilled\<close>, \<^verbatim>\<open>exposed\<close> and \<^verbatim>\<open>spillable\<close> of a slice are those of the base, \<^verbatim>\<open>get_ptr\<close>
  and \<^verbatim>\<open>ptr\<close> change the base exactly as the base's own do and return the base's pointer
  plus the offset, and what one slice does is what every other slice of the base and the
  base itself observe afterwards.
\<close>

theorem slice_delegates_to_base:
  "slice_spill sl alloc target base = spill alloc target base
   \<and> slice_spill_lock sl lock_arg fresh alloc base = spill_lock lock_arg fresh alloc base
   \<and> slice_is_spilled sl base = is_spilled base
   \<and> slice_exposed sl base = exposed base
   \<and> slice_spillable sl base = spillable base
   \<and> snd (slice_get_ptr sl lock_arg victim alloc now base)
       = snd (get_ptr lock_arg victim alloc now base)
   \<and> snd (slice_ptr sl victim alloc now base) = snd (ptr victim alloc now base)
   \<and> (get_ptr lock_arg victim alloc now base = (Returned p, t) \<longrightarrow>
        slice_get_ptr sl lock_arg victim alloc now base = (Returned (p + sl_offset sl), t))
   \<and> (get_ptr lock_arg victim alloc now base = (Raised e, t) \<longrightarrow>
        slice_get_ptr sl lock_arg victim alloc now base = (Raised e, t))
   \<and> slice_is_spilled sl' (snd (slice_spill sl alloc target base))
       = is_spilled (snd (spill alloc target base))
   \<and> slice_spillable sl' (snd (slice_get_ptr sl lock_arg victim alloc now base))
       = spillable (snd (get_ptr lock_arg victim alloc now base))
   \<and> slice_exposed sl' (snd (slice_get_ptr sl lock_arg victim alloc now base))
       = exposed (snd (get_ptr lock_arg victim alloc now base))"
proof -
  have g: "snd (slice_get_ptr sl lock_arg victim alloc now base)
       = snd (get_ptr lock_arg victim alloc now base)"
    by (cases "get_ptr lock_arg victim alloc now base")
       (simp add: slice_get_ptr_def split: outcome.split)
  have p: "snd (slice_ptr sl victim alloc now base) = snd (ptr victim alloc now base)"
    by (cases "ptr victim alloc now base") (simp add: slice_ptr_def split: outcome.split)
  show ?thesis
    by (simp add: g p slice_spill_def slice_spill_lock_def slice_is_spilled_def
        slice_exposed_def slice_spillable_def)
       (simp add: slice_get_ptr_def)
qed

theorem slice_delegates_to_base_witness:
  "getitem 1 2 device_buffer = Returned \<lparr>sl_offset = 1, sl_size = 2\<rparr>
   \<and> fst (slice_get_ptr \<lparr>sl_offset = 1, sl_size = 2\<rparr> (Some 7) False None 5 device_buffer)
       = Returned 4097
   \<and> slice_spillable \<lparr>sl_offset = 0, sl_size = 1\<rparr> device_buffer
   \<and> \<not> slice_spillable \<lparr>sl_offset = 0, sl_size = 1\<rparr>
         (snd (slice_get_ptr \<lparr>sl_offset = 1, sl_size = 2\<rparr> (Some 7) False None 5 device_buffer))
   \<and> \<not> spillable
         (snd (slice_get_ptr \<lparr>sl_offset = 1, sl_size = 2\<rparr> (Some 7) False None 5 device_buffer))"
proof -
  let ?t = "device_buffer\<lparr>sb_spill_locks := [7], sb_last_accessed := 5\<rparr>"
  have a: "getitem 1 2 device_buffer = Returned \<lparr>sl_offset = 1, sl_size = 2\<rparr>"
    by (simp add: getitem_def slice_init_def device_buffer_def)
  have b: "spillable device_buffer" "\<not> spillable ?t"
    by (simp_all add: spillable_def device_buffer_def)
  from slice_delegates_to_base [where sl = "\<lparr>sl_offset = 1, sl_size = 2\<rparr>"
      and sl' = "\<lparr>sl_offset = 0, sl_size = 1\<rparr>" and base = device_buffer
      and lock_arg = "Some 7" and victim = False and alloc = None and now = 5
      and p = 4096 and t = ?t] get_ptr_device_buffer a b
  show ?thesis by (simp add: slice_spillable_def)
qed


section \<open>Copy on write\<close>

lemma read_store_disjoint:
  "regions_disjoint q (length bs) p n \<Longrightarrow>
     copy_ptr_to_host (store_bytes mem q bs) p n = copy_ptr_to_host mem p n"
  by (auto simp add: copy_ptr_to_host_def store_bytes_def regions_disjoint_def)

lemma length_copy_ptr_to_host: "length (copy_ptr_to_host mem p n) = n"
  by (simp add: copy_ptr_to_host_def)

lemma device_copy_read:
  "copy_ptr_to_host (device_copy mem src dst n) dst n = copy_ptr_to_host mem src n"
  using copy_store_same [of mem dst "copy_ptr_to_host mem src n"]
  by (simp add: device_copy_def length_copy_ptr_to_host)

lemma device_copy_disjoint:
  "regions_disjoint dst n p m \<Longrightarrow>
     copy_ptr_to_host (device_copy mem src dst n) p m = copy_ptr_to_host mem p m"
  by (simp add: device_copy_def read_store_disjoint length_copy_ptr_to_host)

lemma write_byte_disjoint:
  "k < n \<Longrightarrow> regions_disjoint p n q m \<Longrightarrow>
     copy_ptr_to_host (memory (write_byte p k v w)) q m = copy_ptr_to_host (memory w) q m"
  by (auto simp add: copy_ptr_to_host_def write_byte_def regions_disjoint_def)

lemma write_through_disjoint:
  "\<forall>(k, v) \<in> set kvs. k < n \<Longrightarrow> regions_disjoint p n q m \<Longrightarrow>
     copy_ptr_to_host (memory (write_through p kvs w)) q m = copy_ptr_to_host (memory w) q m
     \<and> buffers (write_through p kvs w) = buffers w"
proof (induction kvs arbitrary: w)
  case Nil
  then show ?case by simp
next
  case (Cons kv kvs)
  obtain k v where kv: "kv = (k, v)" by (cases kv)
  from Cons.prems kv have k: "k < n" and rest: "\<forall>(k, v) \<in> set kvs. k < n" by auto
  note a = Cons.IH [OF rest Cons.prems(2), of "write_byte p k v w"]
  note b = write_byte_disjoint [OF k Cons.prems(2), of v w]
  have c: "buffers (write_byte p k v w) = buffers w" by (simp add: write_byte_def)
  show ?case by (simp add: kv a b c)
qed

lemma insert_two_members:
  "a \<in> set xs \<Longrightarrow> a \<noteq> b \<Longrightarrow> 1 < length (List.insert b xs)"
proof -
  assume a: "a \<in> set xs" and ne: "a \<noteq> b"
  have "{a, b} \<subseteq> set (List.insert b xs)" using a by simp
  then have "card {a, b} \<le> card (set (List.insert b xs))"
    by (intro card_mono) simp_all
  also have "\<dots> \<le> length (List.insert b xs)" by (rule card_length)
  finally show ?thesis using ne by simp
qed

lemma cow_copy_shallow:
  assumes "\<not> cb_zero_copied (buffers w a)"
  shows "cow_copy False alloc a w =
     (Returned (next_id w),
      w\<lparr>buffers := (buffers w)(next_id w :=
           \<lparr>cb_ptr = cb_ptr (buffers w a), cb_size = cb_size (buffers w a),
            cb_owner = cb_owner (buffers w a), cb_instances = cb_ptr (buffers w a),
            cb_zero_copied = False\<rparr>),
        next_id := Suc (next_id w),
        class_instances := (class_instances w)(cb_ptr (buffers w a) :=
           List.insert (next_id w) (class_instances w (cb_ptr (buffers w a))))\<rparr>)"
  using assms
  by (simp add: cow_copy_def new_object_def cow_finalize_init_def update_buffer_def Let_def)

lemma cow_copy_physical:
  assumes "deep \<or> cb_zero_copied (buffers w a)"
  shows "cow_copy deep (Some q) a w =
     (Returned (next_id w),
      w\<lparr>buffers := (buffers w)(next_id w :=
           \<lparr>cb_ptr = q, cb_size = cb_size (buffers w a), cb_owner = Some q,
            cb_instances = q, cb_zero_copied = False\<rparr>),
        next_id := Suc (next_id w),
        class_instances := (class_instances w)(q := List.insert (next_id w) (class_instances w q)),
        memory := device_copy (memory w) (cb_ptr (buffers w a)) q (cb_size (buffers w a))\<rparr>)"
    and "cow_copy deep None a w = (Raised MemoryError, w)"
  using assms
  by (auto simp add: cow_copy_def new_object_def cow_finalize_init_def update_buffer_def Let_def
      cow_from_device_memory_def buffer_from_device_memory_def)

lemma unlink_not_needed:
  assumes "cb_zero_copied (buffers w b) \<or> \<not> is_shared b w"
  shows "unlink_shared_buffers a1 a2 b w = (Returned (), w)"
  using assms by (auto simp add: unlink_shared_buffers_def Let_def)

lemma unlink_copies:
  assumes "\<not> cb_zero_copied (buffers w b)" and "is_shared b w"
  shows "unlink_shared_buffers (Some p1) (Some p2) b w =
     (Returned (),
      w\<lparr>buffers := (buffers w)(b :=
           (buffers w b)\<lparr>cb_ptr := p2, cb_owner := Some p2, cb_instances := p2,
                          cb_zero_copied := False\<rparr>),
        class_instances := (class_instances w)(p2 := List.insert b (class_instances w p2)),
        memory := device_copy (device_copy (memory w) (cb_ptr (buffers w b)) p1 (cb_size (buffers w b)))
                    p1 p2 (cb_size (buffers w b))\<rparr>)"
    and "unlink_shared_buffers None a2 b w = (Raised MemoryError, w)"
    and "unlink_shared_buffers (Some p1) None b w =
           (Raised MemoryError,
            w\<lparr>memory := device_copy (memory w) (cb_ptr (buffers w b)) p1 (cb_size (buffers w b))\<rparr>)"
  using assms
  by (simp_all add: unlink_shared_buffers_def cow_finalize_init_def update_buffer_def Let_def)


lemma cow_mutable_ptr_cases:
  assumes "cow_mutable_ptr a1 a2 b w = (Returned p, w')"
  obtains (kept) "w' = w" and "p = cb_ptr (buffers w b)"
      and "cb_zero_copied (buffers w b) \<or> \<not> is_shared b w"
  | (copied) p1 where "a1 = Some p1" and "a2 = Some p"
      and "\<not> cb_zero_copied (buffers w b)" and "is_shared b w"
      and "buffers w' = (buffers w)(b :=
             (buffers w b)\<lparr>cb_ptr := p, cb_owner := Some p, cb_instances := p,
                            cb_zero_copied := False\<rparr>)"
      and "memory w' = device_copy
             (device_copy (memory w) (cb_ptr (buffers w b)) p1 (cb_size (buffers w b)))
             p1 p (cb_size (buffers w b))"
proof (cases "cb_zero_copied (buffers w b) \<or> \<not> is_shared b w")
  case True
  from assms unlink_not_needed [OF True, of a1 a2] have "w' = w" "p = cb_ptr (buffers w b)"
    by (auto simp add: cow_mutable_ptr_def)
  then show ?thesis using True by (rule kept)
next
  case False
  then have nz: "\<not> cb_zero_copied (buffers w b)" and sh: "is_shared b w" by simp_all
  show ?thesis
  proof (cases a1)
    case None
    with assms unlink_copies(2) [OF nz sh, of a2] show ?thesis
      by (simp add: cow_mutable_ptr_def)
  next
    case (Some p1)
    note s1 = this
    show ?thesis
    proof (cases a2)
      case None
      with assms s1 unlink_copies(3) [OF nz sh, of p1] show ?thesis
        by (simp add: cow_mutable_ptr_def)
    next
      case (Some p2)
      let ?w = "w\<lparr>buffers := (buffers w)(b :=
           (buffers w b)\<lparr>cb_ptr := p2, cb_owner := Some p2, cb_instances := p2,
                          cb_zero_copied := False\<rparr>),
        class_instances := (class_instances w)(p2 := List.insert b (class_instances w p2)),
        memory := device_copy (device_copy (memory w) (cb_ptr (buffers w b)) p1 (cb_size (buffers w b)))
                    p1 p2 (cb_size (buffers w b))\<rparr>"
      from assms s1 Some unlink_copies(1) [OF nz sh, of p1 p2]
      have e: "p = p2" "w' = ?w" by (auto simp add: cow_mutable_ptr_def)
      have b1: "buffers w' = (buffers w)(b :=
             (buffers w b)\<lparr>cb_ptr := p, cb_owner := Some p, cb_instances := p,
                            cb_zero_copied := False\<rparr>)"
        by (simp add: e)
      have b2: "memory w' = device_copy
             (device_copy (memory w) (cb_ptr (buffers w b)) p1 (cb_size (buffers w b)))
             p1 p (cb_size (buffers w b))"
        by (simp add: e)
      from s1 Some e(1) have "a2 = Some p" by simp
      from s1 this nz sh b1 b2 show ?thesis by (rule copied)
    qed
  qed
qed


lemma fresh_forD:
  "fresh_for a w (Some q) \<Longrightarrow>
     regions_disjoint q (cb_size (buffers w a)) (cb_ptr (buffers w a)) (cb_size (buffers w a))"
  by (simp add: fresh_for_def)

lemma registered_one_buffer_world: "registered 0 one_buffer_world"
  by (simp add: registered_def one_buffer_world_def)

lemma cow_read_one_buffer_world: "cow_read 0 one_buffer_world = [1, 2, 3]"
  using copy_store_same [of "\<lambda>_. 0" 4096 "[1, 2, 3]"]
  by (simp add: cow_read_def one_buffer_world_def numeral_3_eq_3)

lemma write_through_copy_read:
  "cow_read 1 (write_through 12288 [(0, 9), (2, 7)]
        (snd (cow_mutable_ptr (Some 8192) (Some 12288) 1
               (snd (cow_copy False None 0 one_buffer_world))))) = [9, 2, 7]"
  by (simp add: cow_read_def write_byte_def cow_mutable_ptr_def unlink_shared_buffers_def
      is_shared_def cow_copy_def new_object_def cow_finalize_init_def update_buffer_def
      device_copy_def copy_ptr_to_host_def store_bytes_def one_buffer_world_def Let_def
      numeral_3_eq_3)


text \<open>
  C3. Let \<open>a\<close> be a registered buffer, \<open>b\<close> the result of \<^verbatim>\<open>a.copy(deep=False)\<close> and \<open>p\<close> the
  result of \<^verbatim>\<open>b.mutable_ptr\<close>, where the allocator answers with memory away from that of
  \<open>a\<close>. Then \<open>a\<close> and \<open>b\<close> read the same bytes after the copy, which are the bytes \<open>a\<close> read
  before it; after \<^verbatim>\<open>mutable_ptr\<close> the buffer \<open>b\<close> is at \<open>p\<close> and still reads those bytes,
  and the memory at \<open>p\<close> is away from the memory of \<open>a\<close>, so whatever is written through
  \<open>p\<close> inside the buffer, \<open>a\<close> reads what it read before. When \<open>a\<close> was not zero-copied, \<open>b\<close>
  was an alias of the memory of \<open>a\<close> and shared, and \<^verbatim>\<open>mutable_ptr\<close> has moved it to the new
  allocation that it now owns.
\<close>

theorem copy_on_write_isolation:
  assumes reg: "registered a w"
    and cp: "cow_copy False alloc0 a w = (Returned b, w1)"
    and mp: "cow_mutable_ptr alloc1 alloc2 b w1 = (Returned p, w2)"
    and f0: "fresh_for a w alloc0" and f1: "fresh_for a w alloc1" and f2: "fresh_for a w alloc2"
    and wr: "\<forall>(k, v) \<in> set writes. k < cb_size (buffers w2 b)"
  shows "cow_read b w1 = cow_read a w1 \<and> cow_read a w1 = cow_read a w
         \<and> p = cb_ptr (buffers w2 b) \<and> cow_read b w2 = cow_read a w
         \<and> cow_read a w2 = cow_read a w
         \<and> cow_read a (write_through p writes w2) = cow_read a w
         \<and> regions_disjoint p (cb_size (buffers w a)) (cb_ptr (buffers w a)) (cb_size (buffers w a))
         \<and> (\<not> cb_zero_copied (buffers w a) \<longrightarrow>
              cb_ptr (buffers w1 b) = cb_ptr (buffers w a) \<and> is_shared b w1
              \<and> alloc2 = Some p \<and> cb_owner (buffers w2 b) = Some p)"
proof -
  let ?n = "cb_size (buffers w a)"
  let ?pa = "cb_ptr (buffers w a)"
  let ?m = "memory w"
  from reg have lt: "a < next_id w" and mem: "a \<in> set (class_instances w ?pa)"
    by (simp_all add: registered_def)
  txt \<open>What the copy leaves behind: the new object \<open>b\<close> of the size of \<open>a\<close> at some address
    \<open>pb\<close> holding the bytes of \<open>a\<close>, with \<open>a\<close> and its bytes untouched; and \<open>b\<close> is either at a
    fresh address or shared.\<close>
  have step1: "b \<noteq> a \<and> buffers w1 a = buffers w a \<and> cb_size (buffers w1 b) = ?n
      \<and> \<not> cb_zero_copied (buffers w1 b)
      \<and> copy_ptr_to_host (memory w1) ?pa ?n = copy_ptr_to_host ?m ?pa ?n
      \<and> copy_ptr_to_host (memory w1) (cb_ptr (buffers w1 b)) ?n = copy_ptr_to_host ?m ?pa ?n
      \<and> (regions_disjoint (cb_ptr (buffers w1 b)) ?n ?pa ?n \<or> is_shared b w1)
      \<and> (\<not> cb_zero_copied (buffers w a) \<longrightarrow>
           cb_ptr (buffers w1 b) = ?pa \<and> is_shared b w1)"
  proof (cases "cb_zero_copied (buffers w a)")
    case False
    from cp cow_copy_shallow [OF False, of alloc0]
    have b: "b = next_id w" and w1: "w1 =
      w\<lparr>buffers := (buffers w)(next_id w :=
           \<lparr>cb_ptr = ?pa, cb_size = ?n, cb_owner = cb_owner (buffers w a),
            cb_instances = ?pa, cb_zero_copied = False\<rparr>),
        next_id := Suc (next_id w),
        class_instances := (class_instances w)(?pa :=
           List.insert (next_id w) (class_instances w ?pa))\<rparr>"
      by auto
    from b lt have ne: "a \<noteq> b" by simp
    have "is_shared b w1"
      using insert_two_members [OF mem ne] by (simp add: is_shared_def w1 b)
    with ne lt show ?thesis by (simp add: w1 b)
  next
    case True
    note zc = this
    show ?thesis
    proof (cases alloc0)
      case None
      with cp cow_copy_physical(2) [of False w a] zc show ?thesis by simp
    next
      case (Some p0)
      from cp Some cow_copy_physical(1) [of False w a p0] zc
      have b: "b = next_id w" and w1: "w1 =
        w\<lparr>buffers := (buffers w)(next_id w :=
           \<lparr>cb_ptr = p0, cb_size = ?n, cb_owner = Some p0,
            cb_instances = p0, cb_zero_copied = False\<rparr>),
          next_id := Suc (next_id w),
          class_instances := (class_instances w)(p0 := List.insert (next_id w) (class_instances w p0)),
          memory := device_copy ?m ?pa p0 ?n\<rparr>"
        by auto
      from b lt have ne: "a \<noteq> b" by simp
      from f0 Some have d0: "regions_disjoint p0 ?n ?pa ?n" by (simp add: fresh_forD)
      from ne lt d0 zc show ?thesis
        by (simp add: w1 b device_copy_read device_copy_disjoint)
    qed
  qed
  then have ne: "b \<noteq> a" and bufa: "buffers w1 a = buffers w a"
    and szb: "cb_size (buffers w1 b) = ?n" and nz: "\<not> cb_zero_copied (buffers w1 b)"
    and ra1: "copy_ptr_to_host (memory w1) ?pa ?n = copy_ptr_to_host ?m ?pa ?n"
    and rb1: "copy_ptr_to_host (memory w1) (cb_ptr (buffers w1 b)) ?n = copy_ptr_to_host ?m ?pa ?n"
    and alt: "regions_disjoint (cb_ptr (buffers w1 b)) ?n ?pa ?n \<or> is_shared b w1"
    and sh: "\<not> cb_zero_copied (buffers w a) \<longrightarrow>
           cb_ptr (buffers w1 b) = ?pa \<and> is_shared b w1"
    by simp_all
  txt \<open>What \<^verbatim>\<open>mutable_ptr\<close> leaves behind: \<open>b\<close> at the address \<open>p\<close>, away from the memory of
    \<open>a\<close>, still holding the bytes of \<open>a\<close>.\<close>
  have step2: "buffers w2 a = buffers w a \<and> cb_ptr (buffers w2 b) = p
      \<and> cb_size (buffers w2 b) = ?n \<and> regions_disjoint p ?n ?pa ?n
      \<and> copy_ptr_to_host (memory w2) ?pa ?n = copy_ptr_to_host ?m ?pa ?n
      \<and> copy_ptr_to_host (memory w2) p ?n = copy_ptr_to_host ?m ?pa ?n
      \<and> (is_shared b w1 \<longrightarrow> alloc2 = Some p \<and> cb_owner (buffers w2 b) = Some p)"
    using mp
  proof (cases rule: cow_mutable_ptr_cases)
    case kept
    from kept(3) nz have ns: "\<not> is_shared b w1" by simp
    with alt have "regions_disjoint (cb_ptr (buffers w1 b)) ?n ?pa ?n" by simp
    with kept(1,2) ns bufa szb ra1 rb1 show ?thesis by simp
  next
    case (copied p1)
    from f1 copied(1) have d1: "regions_disjoint p1 ?n ?pa ?n" by (simp add: fresh_forD)
    from f2 copied(2) have d2: "regions_disjoint p ?n ?pa ?n" by (simp add: fresh_forD)
    from copied(2,5,6) ne bufa szb d1 d2 ra1 rb1 show ?thesis
      by (simp add: device_copy_read device_copy_disjoint)
  qed
  then have bufa2: "buffers w2 a = buffers w a" and pb: "cb_ptr (buffers w2 b) = p"
    and szb2: "cb_size (buffers w2 b) = ?n" and dp: "regions_disjoint p ?n ?pa ?n"
    and ra2: "copy_ptr_to_host (memory w2) ?pa ?n = copy_ptr_to_host ?m ?pa ?n"
    and rb2: "copy_ptr_to_host (memory w2) p ?n = copy_ptr_to_host ?m ?pa ?n"
    and rebound: "is_shared b w1 \<longrightarrow> alloc2 = Some p \<and> cb_owner (buffers w2 b) = Some p"
    by simp_all
  from wr szb2 have wr': "\<forall>(k, v) \<in> set writes. k < ?n" by simp
  note wt = write_through_disjoint [OF wr' dp, of w2]
  have reads: "cow_read b w1 = cow_read a w1 \<and> cow_read a w1 = cow_read a w
         \<and> p = cb_ptr (buffers w2 b) \<and> cow_read b w2 = cow_read a w
         \<and> cow_read a w2 = cow_read a w
         \<and> cow_read a (write_through p writes w2) = cow_read a w"
    by (simp add: cow_read_def bufa szb ra1 rb1 bufa2 pb szb2 ra2 rb2 wt)
  from sh rebound have "\<not> cb_zero_copied (buffers w a) \<longrightarrow>
              cb_ptr (buffers w1 b) = cb_ptr (buffers w a) \<and> is_shared b w1
              \<and> alloc2 = Some p \<and> cb_owner (buffers w2 b) = Some p" by simp
  with reads dp show ?thesis by blast
qed

theorem copy_on_write_isolation_witness:
  "registered 0 one_buffer_world
   \<and> fst (cow_copy False None 0 one_buffer_world) = Returned 1
   \<and> fst (cow_mutable_ptr (Some 8192) (Some 12288) 1
            (snd (cow_copy False None 0 one_buffer_world))) = Returned 12288
   \<and> cow_read 0 one_buffer_world = [1, 2, 3]
   \<and> cow_read 1 (snd (cow_copy False None 0 one_buffer_world)) = [1, 2, 3]
   \<and> cow_read 0 (write_through 12288 [(0, 9), (2, 7)]
        (snd (cow_mutable_ptr (Some 8192) (Some 12288) 1
               (snd (cow_copy False None 0 one_buffer_world))))) = [1, 2, 3]
   \<and> cow_read 1 (write_through 12288 [(0, 9), (2, 7)]
        (snd (cow_mutable_ptr (Some 8192) (Some 12288) 1
               (snd (cow_copy False None 0 one_buffer_world))))) = [9, 2, 7]"
proof -
  define w1 where "w1 = snd (cow_copy False None 0 one_buffer_world)"
  define w2 where "w2 = snd (cow_mutable_ptr (Some 8192) (Some 12288) 1 w1)"
  have nz: "\<not> cb_zero_copied (buffers one_buffer_world 0)"
    by (simp add: one_buffer_world_def)
  have cp: "cow_copy False None 0 one_buffer_world = (Returned 1, w1)"
    by (simp add: w1_def cow_copy_shallow [OF nz]) (simp add: one_buffer_world_def)
  have b1: "\<not> cb_zero_copied (buffers w1 (Suc 0))" "is_shared (Suc 0) w1"
    by (simp_all add: w1_def cow_copy_shallow [OF nz] is_shared_def)
       (simp_all add: one_buffer_world_def)
  have mp: "cow_mutable_ptr (Some 8192) (Some 12288) 1 w1 = (Returned 12288, w2)"
    by (simp add: w2_def cow_mutable_ptr_def unlink_copies(1) [OF b1])
  have s1: "cb_size (buffers w1 (Suc 0)) = 3"
    by (simp add: w1_def cow_copy_shallow [OF nz]) (simp add: one_buffer_world_def)
  have sz: "cb_size (buffers w2 (Suc 0)) = 3"
    by (simp add: w2_def cow_mutable_ptr_def unlink_copies(1) [OF b1] s1)
  have f: "fresh_for 0 one_buffer_world None" "fresh_for 0 one_buffer_world (Some 8192)"
    "fresh_for 0 one_buffer_world (Some 12288)"
    by (simp_all add: fresh_for_def regions_disjoint_def one_buffer_world_def)
  have wr: "\<forall>(k, v) \<in> set [(0, 9), (2, 7 :: byte)]. k < cb_size (buffers w2 1)"
    by (simp add: sz)
  from copy_on_write_isolation [OF registered_one_buffer_world cp mp f wr]
    registered_one_buffer_world cp mp cow_read_one_buffer_world write_through_copy_read
  show ?thesis by (simp add: w1_def [symmetric] w2_def [symmetric])
qed


section \<open>Zero-copied buffers\<close>

lemma unlink_keeps_zero_copied:
  "cb_zero_copied (buffers w a) \<Longrightarrow>
     cb_zero_copied (buffers (snd (unlink_shared_buffers a1 a2 i w)) a)
     \<and> next_id (snd (unlink_shared_buffers a1 a2 i w)) = next_id w"
  by (cases "i = a")
     (auto simp add: unlink_shared_buffers_def cow_finalize_init_def update_buffer_def Let_def
       split: option.splits)

lemma new_buffer_keeps_zero_copied:
  assumes "a < next_id w" and "cb_zero_copied (buffers w a)"
  shows "a < next_id (snd (cow_from_device_memory p n ow e w))
         \<and> cb_zero_copied (buffers (snd (cow_from_device_memory p n ow e w)) a)"
  using assms
  by (simp add: cow_from_device_memory_def buffer_from_device_memory_def new_object_def
      cow_finalize_init_def update_buffer_def Let_def)

lemma cow_exec_keeps_zero_copied:
  assumes "a < next_id w" and "cb_zero_copied (buffers w a)"
  shows "a < next_id (cow_exec op w) \<and> cb_zero_copied (buffers (cow_exec op w) a)"
proof (cases op)
  case (Cow_copy deep alloc i)
  show ?thesis
  proof (cases "\<not> deep \<and> \<not> cb_zero_copied (buffers w i)")
    case True
    with assms Cow_copy show ?thesis
      by (simp add: cow_copy_def new_object_def cow_finalize_init_def update_buffer_def Let_def)
  next
    case False
    show ?thesis
    proof (cases alloc)
      case None
      with False assms Cow_copy show ?thesis by (auto simp add: cow_copy_def)
    next
      case (Some q)
      let ?w = "w\<lparr>memory := device_copy (memory w) (cb_ptr (buffers w i)) q (cb_size (buffers w i))\<rparr>"
      from assms have "a < next_id ?w" "cb_zero_copied (buffers ?w a)" by simp_all
      from new_buffer_keeps_zero_copied [OF this, of q "cb_size (buffers w i)" "Some q" False]
        False Some Cow_copy
      show ?thesis by (auto simp add: cow_copy_def Let_def split: prod.splits)
    qed
  qed
next
  case (Cow_ptr a1 a2 i)
  obtain r t where u: "unlink_shared_buffers a1 a2 i w = (r, t)"
    by (cases "unlink_shared_buffers a1 a2 i w")
  from unlink_keeps_zero_copied [OF assms(2), of a1 a2 i] u assms(1) Cow_ptr
  show ?thesis
    by (cases r) (simp_all add: cow_ptr_def update_buffer_def Let_def)
next
  case (Cow_mutable_ptr a1 a2 i)
  obtain r t where u: "unlink_shared_buffers a1 a2 i w = (r, t)"
    by (cases "unlink_shared_buffers a1 a2 i w")
  from unlink_keeps_zero_copied [OF assms(2), of a1 a2 i] u assms(1) Cow_mutable_ptr
  show ?thesis
    by (cases r) (simp_all add: cow_mutable_ptr_def)
next
  case (Cow_getitem offset sz i)
  with new_buffer_keeps_zero_copied [OF assms] show ?thesis
    by (simp add: cow_getitem_def)
next
  case (Cow_cuda_array_interface a1 a2 i)
  obtain r t where u: "unlink_shared_buffers a1 a2 i w = (r, t)"
    by (cases "unlink_shared_buffers a1 a2 i w")
  from unlink_keeps_zero_copied [OF assms(2), of a1 a2 i] u assms(1) Cow_cuda_array_interface
  show ?thesis
    by (cases r) (simp_all add: cow_cuda_array_interface_def update_buffer_def Let_def)
next
  case (Cow_readonly_proxy i)
  with assms show ?thesis by (simp add: get_readonly_proxy_obj_def)
next
  case (Cow_from_device_memory p n ow e)
  with new_buffer_keeps_zero_copied [OF assms] show ?thesis by simp
next
  case (Cow_from_host_memory data c alloc)
  with assms show ?thesis
    by (simp add: cow_from_host_memory_def new_object_def cow_finalize_init_def
        update_buffer_def Let_def split: option.splits)
next
  case (Cow_write p k v)
  with assms show ?thesis by (simp add: write_byte_def)
qed

lemma cow_execs_keep_zero_copied:
  "a < next_id w \<Longrightarrow> cb_zero_copied (buffers w a) \<Longrightarrow>
     a < next_id (cow_execs ops w) \<and> cb_zero_copied (buffers (cow_execs ops w) a)"
  by (induction ops arbitrary: w) (simp_all add: cow_exec_keeps_zero_copied)

lemma unlink_next_id:
  "next_id (snd (unlink_shared_buffers a1 a2 i w)) = next_id w"
  by (simp add: unlink_shared_buffers_def cow_finalize_init_def update_buffer_def Let_def
      split: option.splits)

lemma cow_ptr_returned:
  assumes "cow_ptr a1 a2 a w = (Returned p, w1)"
  shows "cb_zero_copied (buffers w1 a) \<and> p = cb_ptr (buffers w1 a) \<and> next_id w1 = next_id w"
proof -
  obtain x t where u: "unlink_shared_buffers a1 a2 a w = (x, t)"
    by (cases "unlink_shared_buffers a1 a2 a w")
  from unlink_next_id [of a1 a2 a w] u have n: "next_id t = next_id w" by simp
  show ?thesis
  proof (cases x)
    case (Raised e)
    with assms u show ?thesis by (simp add: cow_ptr_def)
  next
    case (Returned y)
    with assms u have w1: "w1 = update_buffer a (\<lambda>b. b\<lparr>cb_zero_copied := True\<rparr>) t"
      and p: "p = cb_ptr (buffers (update_buffer a (\<lambda>b. b\<lparr>cb_zero_copied := True\<rparr>) t) a)"
      by (auto simp add: cow_ptr_def Let_def)
    from n show ?thesis by (simp add: w1 p update_buffer_def)
  qed
qed

lemma physical_copy_facts:
  assumes ne: "next_id w \<noteq> a"
    and wd: "w' = w\<lparr>buffers := (buffers w)(next_id w :=
           \<lparr>cb_ptr = q, cb_size = cb_size (buffers w a), cb_owner = Some q,
            cb_instances = q, cb_zero_copied = False\<rparr>),
        next_id := Suc (next_id w),
        class_instances := (class_instances w)(q := List.insert (next_id w) (class_instances w q)),
        memory := device_copy (memory w) (cb_ptr (buffers w a)) q (cb_size (buffers w a))\<rparr>"
  shows "buffers w' a = buffers w a"
    and "cb_ptr (buffers w' (next_id w)) = q"
    and "cb_owner (buffers w' (next_id w)) = Some q"
    and "cb_size (buffers w' (next_id w)) = cb_size (buffers w a)"
    and "\<not> cb_zero_copied (buffers w' (next_id w))"
    and "cow_read (next_id w) w' = cow_read a w"
    and "class_instances w' q = List.insert (next_id w) (class_instances w q)"
    and "q \<noteq> r \<Longrightarrow> class_instances w' r = class_instances w r"
  using ne by (simp_all add: wd cow_read_def device_copy_read)


text \<open>
  C4. When \<^verbatim>\<open>ptr\<close> has returned on an existing buffer, the buffer is zero-copied and the
  result is its pointer. It is still zero-copied after any run of operations on any
  buffers, and in the state after such a run \<^verbatim>\<open>copy(deep=False)\<close> is a physical copy: it
  fails if the allocation fails, and otherwise returns a new object at the newly
  allocated address, owning it, of the size of the buffer and reading the bytes the buffer
  reads; the buffer itself is unchanged; the new object is registered under its own
  address, and the set registered under the buffer's pointer gains no member.
\<close>

theorem zero_copied_copy_is_physical:
  assumes ex: "a < next_id w"
    and r: "cow_ptr alloc1 alloc2 a w = (Returned p, w1)"
    and w2: "w2 = cow_execs ops w1"
  shows "cb_zero_copied (buffers w1 a) \<and> p = cb_ptr (buffers w1 a)
     \<and> cb_zero_copied (buffers w2 a)
     \<and> cow_copy False None a w2 = (Raised MemoryError, w2)
     \<and> (\<exists>w'. cow_copy False (Some q) a w2 = (Returned (next_id w2), w')
           \<and> buffers w' a = buffers w2 a
           \<and> cb_ptr (buffers w' (next_id w2)) = q
           \<and> cb_owner (buffers w' (next_id w2)) = Some q
           \<and> cb_size (buffers w' (next_id w2)) = cb_size (buffers w2 a)
           \<and> cow_read (next_id w2) w' = cow_read a w2
           \<and> class_instances w' q = List.insert (next_id w2) (class_instances w2 q)
           \<and> (q \<noteq> cb_ptr (buffers w2 a) \<longrightarrow>
                class_instances w' (cb_ptr (buffers w2 a))
                  = class_instances w2 (cb_ptr (buffers w2 a))))"
proof -
  note f = cow_ptr_returned [OF r]
  from f ex have ex1: "a < next_id w1" and z1: "cb_zero_copied (buffers w1 a)" by simp_all
  from cow_execs_keep_zero_copied [OF ex1 z1, of ops] w2
  have ex2: "a < next_id w2" and z2: "cb_zero_copied (buffers w2 a)" by simp_all
  from ex2 have ne: "next_id w2 \<noteq> a" by simp
  have z: "False \<or> cb_zero_copied (buffers w2 a)" using z2 by simp
  note c = cow_copy_physical [OF z]
  note g = physical_copy_facts [OF ne refl, of q]
  have "\<exists>w'. cow_copy False (Some q) a w2 = (Returned (next_id w2), w')
           \<and> buffers w' a = buffers w2 a
           \<and> cb_ptr (buffers w' (next_id w2)) = q
           \<and> cb_owner (buffers w' (next_id w2)) = Some q
           \<and> cb_size (buffers w' (next_id w2)) = cb_size (buffers w2 a)
           \<and> cow_read (next_id w2) w' = cow_read a w2
           \<and> class_instances w' q = List.insert (next_id w2) (class_instances w2 q)
           \<and> (q \<noteq> cb_ptr (buffers w2 a) \<longrightarrow>
                class_instances w' (cb_ptr (buffers w2 a))
                  = class_instances w2 (cb_ptr (buffers w2 a)))"
    apply (rule exI)
    apply (intro conjI impI)
           apply (rule c(1))
          apply (rule g(1))
         apply (rule g(2))
        apply (rule g(3))
       apply (rule g(4))
      apply (rule g(6))
     apply (rule g(7))
    apply (erule g(8))
    done
  with f z2 c(2) show ?thesis by simp
qed

theorem zero_copied_copy_is_physical_witness:
  "0 < next_id one_buffer_world
   \<and> fst (cow_ptr None None 0 one_buffer_world) = Returned 4096
   \<and> cb_zero_copied (buffers (cow_execs [Cow_copy False (Some 8192) 0, Cow_mutable_ptr None None 0]
         (snd (cow_ptr None None 0 one_buffer_world))) 0)
   \<and> cow_copy False None 0 (snd (cow_ptr None None 0 one_buffer_world))
        = (Raised MemoryError, snd (cow_ptr None None 0 one_buffer_world))
   \<and> fst (cow_copy False (Some 12288) 0 (snd (cow_ptr None None 0 one_buffer_world)))
        = Returned 1
   \<and> cb_ptr (buffers (snd (cow_copy False (Some 12288) 0
          (snd (cow_ptr None None 0 one_buffer_world)))) 1) = 12288
   \<and> class_instances (snd (cow_copy False (Some 12288) 0
          (snd (cow_ptr None None 0 one_buffer_world)))) 4096 = [0]
   \<and> class_instances (snd (cow_copy False (Some 12288) 0 one_buffer_world)) 4096 = [1, 0]"
proof -
  define w1 where "w1 = snd (cow_ptr None None 0 one_buffer_world)"
  have ns: "cb_zero_copied (buffers one_buffer_world 0) \<or> \<not> is_shared 0 one_buffer_world"
    by (simp add: is_shared_def one_buffer_world_def)
  have r: "cow_ptr None None 0 one_buffer_world = (Returned 4096, w1)"
    by (simp add: w1_def cow_ptr_def unlink_not_needed [OF ns] Let_def update_buffer_def)
       (simp add: one_buffer_world_def)
  have n1: "next_id w1 = 1" "cb_ptr (buffers w1 0) = 4096" "class_instances w1 4096 = [0]"
    by (simp_all add: w1_def cow_ptr_def unlink_not_needed [OF ns] Let_def update_buffer_def)
       (simp_all add: one_buffer_world_def)
  have ex: "0 < next_id one_buffer_world" by (simp add: one_buffer_world_def)
  have nz: "\<not> cb_zero_copied (buffers one_buffer_world 0)"
    by (simp add: one_buffer_world_def)
  have al: "class_instances (snd (cow_copy False (Some 12288) 0 one_buffer_world)) 4096 = [1, 0]"
    by (simp add: cow_copy_shallow [OF nz]) (simp add: one_buffer_world_def)
  from zero_copied_copy_is_physical [OF ex r, where ops = "[Cow_copy False (Some 8192) 0, Cow_mutable_ptr None None 0]" and q = 12288, OF refl]
  have a: "cb_zero_copied (buffers (cow_execs [Cow_copy False (Some 8192) 0, Cow_mutable_ptr None None 0] w1) 0)"
    by blast
  from zero_copied_copy_is_physical [OF ex r, where ops = "[]" and q = 12288 and ?w2.0 = w1]
  obtain w' where b: "cow_copy False None 0 w1 = (Raised MemoryError, w1)"
    "cow_copy False (Some 12288) 0 w1 = (Returned (next_id w1), w')"
    "cb_ptr (buffers w' (next_id w1)) = 12288"
    "12288 \<noteq> cb_ptr (buffers w1 0) \<longrightarrow>
       class_instances w' (cb_ptr (buffers w1 0)) = class_instances w1 (cb_ptr (buffers w1 0))"
    by auto
  from ex r a b al n1 show ?thesis by (simp add: w1_def [symmetric])
qed


end
